theory Spec2Isabelle
  imports Main "HOL-Library.AList"
begin

chapter \<open>The model\<close>

section \<open>Strings\<close>

text \<open>
  JavaScript strings are modelled as \<^typ>\<open>string\<close>. Only the ASCII letters take part
  in the character classes and case conversions the adapter uses on type, model and path
  names, so the classes are written out as the characters they hold.
\<close>

definition upperAZ :: string where
  "upperAZ = ''ABCDEFGHIJKLMNOPQRSTUVWXYZ''"

definition lowerAZ :: string where
  "lowerAZ = ''abcdefghijklmnopqrstuvwxyz''"

definition isUpperAZ :: "char \<Rightarrow> bool" where
  \<comment> \<open>the regular expression class \<open>[A-Z]\<close>\<close>
  "isUpperAZ c = (c \<in> set upperAZ)"

definition toUpperCaseChar :: "char \<Rightarrow> char" where
  "toUpperCaseChar c = (case map_of (zip lowerAZ upperAZ) c of Some u \<Rightarrow> u | None \<Rightarrow> c)"

definition toLowerCaseChar :: "char \<Rightarrow> char" where
  "toLowerCaseChar c = (case map_of (zip upperAZ lowerAZ) c of Some l \<Rightarrow> l | None \<Rightarrow> c)"

text \<open>\<open>s.split(d)\<close> for a one-character separator: never empty, \<open>"".split(".")\<close> is \<open>[""]\<close>.\<close>

fun splitOn :: "char \<Rightarrow> string \<Rightarrow> string list" where
  "splitOn d [] = [[]]"
| "splitOn d (c # cs) =
     (if c = d then [] # splitOn d cs
      else (case splitOn d cs of w # ws \<Rightarrow> (c # w) # ws | [] \<Rightarrow> [[c]]))"

text \<open>\<open>xs.join(sep)\<close> on an array of strings.\<close>

fun joinWith :: "string \<Rightarrow> string list \<Rightarrow> string" where
  "joinWith sep [] = []"
| "joinWith sep [x] = x"
| "joinWith sep (x # y # ys) = x @ sep @ joinWith sep (y # ys)"

section \<open>Type and model names (MongooseAdapter, static helpers)\<close>

text \<open>\<open>const ucFirst = (v) => v.charAt(0).toUpperCase() + v.slice(1)\<close>\<close>

fun ucFirst :: "string \<Rightarrow> string" where
  "ucFirst [] = []"
| "ucFirst (c # cs) = toUpperCaseChar c # cs"

text \<open>
  The loop \<open>while((matches = wordsRe.exec(s)) !== null) words.push(matches[0])\<close> with
  \<open>wordsRe = /[A-Z]([A-Z]*(?![^A-Z])|[^A-Z]*)/g\<close>. A match starts at the next capital
  \<open>c\<close>. The first alternative takes the whole run of capitals after \<open>c\<close> and needs the
  next character not to be a non-capital: at the end of the input it keeps the whole run;
  before a non-capital it backtracks by one capital, which then is the next character, so
  the run without its last capital is kept; with no capital to give back it fails, and the
  second alternative takes the run of non-capitals after \<open>c\<close>. The next search starts
  where the match ended.
\<close>

function wordsRe_exec_all :: "string \<Rightarrow> string list" where
  "wordsRe_exec_all [] = []"
| "wordsRe_exec_all (c # cs) =
     (if \<not> isUpperAZ c then wordsRe_exec_all cs
      else if dropWhile isUpperAZ cs = [] then [c # cs]
      else if takeWhile isUpperAZ cs \<noteq> []
        then (c # butlast (takeWhile isUpperAZ cs))
               # wordsRe_exec_all (last (takeWhile isUpperAZ cs) # dropWhile isUpperAZ cs)
      else (c # takeWhile (\<lambda>x. \<not> isUpperAZ x) cs)
               # wordsRe_exec_all (dropWhile (\<lambda>x. \<not> isUpperAZ x) cs))"
  by pat_completeness auto
termination
proof (relation "measure length")
  show "wf (measure length)" by simp
next
  fix c cs show "\<not> isUpperAZ c \<Longrightarrow> (cs, c # cs) \<in> measure length" by simp
next
  fix c :: char and cs :: string
  assume "takeWhile isUpperAZ cs \<noteq> []"
  then have "length (takeWhile isUpperAZ cs) \<ge> 1"
    by (cases "takeWhile isUpperAZ cs") auto
  moreover have "length (takeWhile isUpperAZ cs) + length (dropWhile isUpperAZ cs) = length cs"
    by (metis length_append takeWhile_dropWhile_id)
  ultimately show "(last (takeWhile isUpperAZ cs) # dropWhile isUpperAZ cs, c # cs) \<in> measure length"
    by simp
next
  fix c :: char and cs :: string
  show "(dropWhile (\<lambda>x. \<not> isUpperAZ x) cs, c # cs) \<in> measure length"
    by (simp add: length_dropWhile_le le_imp_less_Suc)
qed

definition toFriendlyName :: "string \<Rightarrow> string" where
  "toFriendlyName pathOrModelName =
     (let pascalCasedString = concat (map ucFirst (splitOn CHR ''.'' pathOrModelName))
      in joinWith '' '' (wordsRe_exec_all pascalCasedString))"

text \<open>
  The inflector (the \<open>pluralize\<close> package, or the one handed to the adapter): two
  functions on words, taken as they are.
\<close>

record inflector =
  plural :: "string \<Rightarrow> string"
  singular :: "string \<Rightarrow> string"

text \<open>
  \<^verbatim>\<open>
  static getModelName(type, singularizer = pluralize.singular) {
    const words = type.split("-");
    words[words.length - 1] = singularizer(words[words.length - 1]);
    return words.map((it) => it.charAt(0).toUpperCase() + it.slice(1)).join("");
  }
  static getType(modelName, pluralizer = pluralize.plural) {
    return pluralizer(modelName.replace(/([A-Z])/g, "\-$1").slice(1).toLowerCase());
  }
  \<close>
\<close>

definition getModelName :: "string \<Rightarrow> (string \<Rightarrow> string) \<Rightarrow> string" where
  "getModelName type singularizer =
     (let words = splitOn CHR ''-'' type;
          words = butlast words @ [singularizer (last words)]
      in concat (map ucFirst words))"

definition getType :: "string \<Rightarrow> (string \<Rightarrow> string) \<Rightarrow> string" where
  "getType aModelName pluralizer =
     pluralizer (map toLowerCaseChar
       (drop 1 (concat (map (\<lambda>c. if isUpperAZ c then [CHR ''-'', c] else [c]) aModelName))))"

section \<open>Errors\<close>

text \<open>
  \<open>new APIError(status, code, title, detail)\<close>; an argument left out or \<open>undefined\<close> is
  \<open>None\<close>. What a function throws (or a promise rejects with) is a value of \<open>failure\<close>:
  an APIError, the TypeError of the runtime (a property read on \<open>undefined\<close> or \<open>null\<close>,
  a call of something that is not a function, a strict-mode \<open>delete\<close> of a property that
  cannot be deleted), a plain \<open>new Error(message)\<close>, or the Error with \<open>status = 404\<close>
  that \<open>getModel\<close> throws for a model that is not registered.
\<close>

datatype apiError = APIError (status: int) (code: "string option") (title: string) (detail: "string option")

datatype failure = Api apiError | TypeError | PlainError string | ModelNotRegistered string

section \<open>The id filter (getIdQueryType, idIsValid)\<close>

text \<open>\<open>idOrIds: string | string[] | undefined\<close>\<close>

datatype idOrIds = IdUndefined | IdString string | IdArray "string list"

datatype mode = FindOne | Find

text \<open>The three shapes of the filter object: \<open>{_id: id}\<close>, \<open>{_id: {$in: ids}}\<close>, \<open>{}\<close>.\<close>

datatype idQuery = QueryId string | QueryIdIn "string list" | QueryAll

definition isHexDigit :: "char \<Rightarrow> bool" where
  \<comment> \<open>the class \<open>[0-9a-fA-F]\<close>\<close>
  "isHexDigit c = (c \<in> set ''0123456789abcdefABCDEF'')"

definition idIsValid :: "string \<Rightarrow> bool" where
  \<comment> \<open>\<open>typeof id === "string" && /^[0-9a-fA-F]{24}$/.test(id)\<close>\<close>
  "idIsValid ident = (length ident = 24 \<and> list_all isHexDigit ident)"

definition getIdQueryType :: "idOrIds \<Rightarrow> failure + (mode \<times> idQuery)" where
  "getIdQueryType idOrIds =
     (let (mode, idQuery, idsArray) =
        (case idOrIds of
           IdArray ids \<Rightarrow> (Find, QueryIdIn ids, Some ids)
         | IdString s \<Rightarrow>
             if s \<noteq> [] then (FindOne, QueryId s, Some [s]) else (Find, QueryAll, None)
         | IdUndefined \<Rightarrow> (Find, QueryAll, None))
      in case idsArray of
           Some ids \<Rightarrow>
             if \<not> list_all idIsValid ids then
               Inl (case idOrIds of
                      IdArray _ \<Rightarrow> Api (APIError 400 None ''Invalid ID.'' None)
                    | _ \<Rightarrow> Api (APIError 404 None ''No matching resource found.'' (Some ''Invalid ID.'')))
             else Inr (mode, idQuery)
         | None \<Rightarrow> Inr (mode, idQuery))"

section \<open>JavaScript values\<close>

text \<open>
  The values a serialized document holds (\<open>doc.toJSON()\<close>): \<open>undefined\<close>, \<open>null\<close>,
  booleans, numbers (the integers), strings, the store's ObjectId (\<open>String(v)\<close> is its
  hexadecimal form), arrays and plain objects. An array is the list of its slots, \<open>None\<close>
  for a hole (what \<open>delete arr[i]\<close> leaves behind); an object is the list of its own
  properties in insertion order, each key once. Only own properties are modelled: a read
  of a name the value does not own gives \<open>undefined\<close>, members inherited from a
  prototype are not values of the model. No value of the model is a function.
\<close>

datatype jsval =
    JUndefined
  | JNull
  | JBool bool
  | JNum int
  | JStr string
  | JObjectId string
  | JArr "jsval option list"
  | JObj "(string \<times> jsval) list"

text \<open>Truthiness, as \<open>if(v)\<close>, \<open>!v\<close> and \<open>a && b\<close> test it.\<close>

fun truthy :: "jsval \<Rightarrow> bool" where
  "truthy JUndefined = False"
| "truthy JNull = False"
| "truthy (JBool b) = b"
| "truthy (JNum n) = (n \<noteq> 0)"
| "truthy (JStr s) = (s \<noteq> [])"
| "truthy (JObjectId h) = True"
| "truthy (JArr xs) = True"
| "truthy (JObj props) = True"

text \<open>\<open>Array.isArray(v)\<close>\<close>

fun isArray :: "jsval \<Rightarrow> bool" where
  "isArray (JArr xs) = True"
| "isArray v = False"

text \<open>
  A property name is an array index when it is the canonical decimal form of a number:
  digits only, no leading zero except for \<open>"0"\<close> itself.
\<close>

definition digitValue :: "char \<Rightarrow> nat option" where
  "digitValue c =
     map_of [(CHR ''0'', 0), (CHR ''1'', 1), (CHR ''2'', 2), (CHR ''3'', 3), (CHR ''4'', 4),
             (CHR ''5'', 5), (CHR ''6'', 6), (CHR ''7'', 7), (CHR ''8'', 8), (CHR ''9'', 9)] c"

fun digitsValue :: "nat \<Rightarrow> string \<Rightarrow> nat option" where
  "digitsValue acc [] = Some acc"
| "digitsValue acc (c # cs) =
     (case digitValue c of None \<Rightarrow> None | Some d \<Rightarrow> digitsValue (10 * acc + d) cs)"

definition arrayIndex :: "string \<Rightarrow> nat option" where
  "arrayIndex k =
     (if k = [] then None
      else if hd k = CHR ''0'' \<and> tl k \<noteq> [] then None
      else digitsValue 0 k)"

text \<open>
  \<open>obj[part]\<close>: a TypeError on \<open>undefined\<close> and \<open>null\<close>; an own property of an object;
  a slot or the length of an array; a character or the length of a string; \<open>undefined\<close>
  otherwise.
\<close>

definition getProp :: "jsval \<Rightarrow> string \<Rightarrow> failure + jsval" where
  "getProp obj part =
     (case obj of
        JUndefined \<Rightarrow> Inl TypeError
      | JNull \<Rightarrow> Inl TypeError
      | JObj props \<Rightarrow> Inr (case map_of props part of Some v \<Rightarrow> v | None \<Rightarrow> JUndefined)
      | JArr xs \<Rightarrow>
          Inr (if part = ''length'' then JNum (int (length xs))
               else (case arrayIndex part of
                       Some i \<Rightarrow> (if i < length xs
                                   then (case xs ! i of Some v \<Rightarrow> v | None \<Rightarrow> JUndefined)
                                   else JUndefined)
                     | None \<Rightarrow> JUndefined))
      | JStr s \<Rightarrow>
          Inr (if part = ''length'' then JNum (int (length s))
               else (case arrayIndex part of
                       Some i \<Rightarrow> (if i < length s then JStr [s ! i] else JUndefined)
                     | None \<Rightarrow> JUndefined))
      | _ \<Rightarrow> Inr JUndefined)"

text \<open>\<open>parts.reduce((obj, part) => obj[part], object)\<close>\<close>

fun reduceGetProp :: "string list \<Rightarrow> jsval \<Rightarrow> failure + jsval" where
  "reduceGetProp [] obj = Inr obj"
| "reduceGetProp (part # parts) obj =
     (case getProp obj part of Inl e \<Rightarrow> Inl e | Inr v \<Rightarrow> reduceGetProp parts v)"

text \<open>
  The call \<open>container.hasOwnProperty(k)\<close>. It reads the member \<open>hasOwnProperty\<close> of the
  container first: a TypeError on \<open>undefined\<close> and \<open>null\<close>, and a TypeError when the
  container owns a property of that name (no value of the model can be called). An array
  owns its filled slots and \<open>length\<close>, a string its characters and \<open>length\<close>.
\<close>

definition hasOwnProperty :: "jsval \<Rightarrow> string \<Rightarrow> failure + bool" where
  "hasOwnProperty container k =
     (case container of
        JUndefined \<Rightarrow> Inl TypeError
      | JNull \<Rightarrow> Inl TypeError
      | JObj props \<Rightarrow>
          (if ''hasOwnProperty'' \<in> fst ` set props then Inl TypeError
           else Inr (k \<in> fst ` set props))
      | JArr xs \<Rightarrow>
          Inr (k = ''length''
               \<or> (case arrayIndex k of Some i \<Rightarrow> i < length xs \<and> xs ! i \<noteq> None | None \<Rightarrow> False))
      | JStr s \<Rightarrow>
          Inr (k = ''length''
               \<or> (case arrayIndex k of Some i \<Rightarrow> i < length s | None \<Rightarrow> False))
      | _ \<Rightarrow> Inr False)"

text \<open>
  \<open>delete container[k]\<close> in strict code (the modules are ES modules): the property is
  removed, and a property that cannot be deleted (the length of an array, the length and
  the characters of a string) is a TypeError. Deleting a slot of an array leaves a hole.
\<close>

definition deleteProp :: "jsval \<Rightarrow> string \<Rightarrow> failure + jsval" where
  "deleteProp container k =
     (case container of
        JUndefined \<Rightarrow> Inl TypeError
      | JNull \<Rightarrow> Inl TypeError
      | JObj props \<Rightarrow> Inr (JObj (AList.delete k props))
      | JArr xs \<Rightarrow>
          (if k = ''length'' then Inl TypeError
           else (case arrayIndex k of
                   Some i \<Rightarrow> Inr (JArr (if i < length xs then xs[i := None] else xs))
                 | None \<Rightarrow> Inr (JArr xs)))
      | JStr s \<Rightarrow>
          (if k = ''length'' \<or> (case arrayIndex k of Some i \<Rightarrow> i < length s | None \<Rightarrow> False)
           then Inl TypeError else Inr (JStr s))
      | v \<Rightarrow> Inr v)"

text \<open>
  The source mutates the container it reached and every holder of it sees the change. A
  value of the model is a tree, so the change is written back along the path:
  \<open>setProp obj part v\<close> is \<open>obj\<close> with the property \<open>part\<close> it already has replaced
  by \<open>v\<close>.
\<close>

definition setProp :: "jsval \<Rightarrow> string \<Rightarrow> jsval \<Rightarrow> jsval" where
  "setProp obj part v =
     (case obj of
        JObj props \<Rightarrow> (if part \<in> fst ` set props then JObj (AList.update part v props) else obj)
      | JArr xs \<Rightarrow>
          (case arrayIndex part of
             Some i \<Rightarrow> (if i < length xs \<and> xs ! i \<noteq> None then JArr (xs[i := Some v]) else obj)
           | None \<Rightarrow> obj)
      | _ \<Rightarrow> obj)"

text \<open>\<open>String(v)\<close>. An object that owns \<open>toString\<close> or \<open>valueOf\<close> cannot be converted.\<close>

definition decimalDigits :: string where
  "decimalDigits = ''0123456789''"

fun showNat :: "nat \<Rightarrow> string" where
  "showNat n =
     (if n < 10 then [decimalDigits ! n]
      else showNat (n div 10) @ [decimalDigits ! (n mod 10)])"

declare showNat.simps [simp del]

definition showInt :: "int \<Rightarrow> string" where
  "showInt i = (if i < 0 then CHR ''-'' # showNat (nat (- i)) else showNat (nat i))"

fun js_String :: "jsval \<Rightarrow> failure + string"
  and js_elemString :: "jsval option \<Rightarrow> failure + string"
  and js_joinElems :: "jsval option list \<Rightarrow> failure + string list" where
  "js_String JUndefined = Inr ''undefined''"
| "js_String JNull = Inr ''null''"
| "js_String (JBool b) = Inr (if b then ''true'' else ''false'')"
| "js_String (JNum n) = Inr (showInt n)"
| "js_String (JStr s) = Inr s"
| "js_String (JObjectId h) = Inr h"
| "js_String (JArr xs) =
     (case js_joinElems xs of Inl e \<Rightarrow> Inl e | Inr ss \<Rightarrow> Inr (joinWith '','' ss))"
| "js_String (JObj props) =
     (if ''toString'' \<in> fst ` set props \<or> ''valueOf'' \<in> fst ` set props then Inl TypeError
      else Inr ''[object Object]'')"
| "js_elemString None = Inr []"
| "js_elemString (Some v) = (if v = JUndefined \<or> v = JNull then Inr [] else js_String v)"
| "js_joinElems [] = Inr []"
| "js_joinElems (x # xs) =
     (case js_elemString x of
        Inl e \<Rightarrow> Inl e
      | Inr s \<Rightarrow> (case js_joinElems xs of Inl e \<Rightarrow> Inl e | Inr ss \<Rightarrow> Inr (s # ss)))"

section \<open>deleteNested on the attributes of a document\<close>

text \<open>
  \<^verbatim>\<open>
  export function deleteNested(path, object) {
    try {
      const pathParts = path.split(".");
      const lastPartIndex = pathParts.length - 1;
      const lastPart = pathParts[lastPartIndex];
      const containingParts = pathParts.slice(0, lastPartIndex);
      const container = containingParts.reduce(((obj, part) => obj[part]), object);
      if(container.hasOwnProperty(lastPart)) { delete container[lastPart]; return true; }
      else { throw new Error("The last property in the path didn't exist on the object."); }
    }
    catch(error) { return false; }
  }
  \<close>
  \<open>docToResource\<close> calls this copy (\<open>util/misc\<close>) on the attributes of a document, a
  tree of the values above, and this section has the call on such a tree. \<open>deleteAt\<close> is
  the body of the \<open>try\<close>: it walks the containing parts, tests and deletes at the
  container, and gives the object as the deletion leaves it, or what was thrown.
  \<open>deleteNested\<close> returns the boolean together with the object after the call. The
  function on arbitrary objects, with shared and cyclic structure and the members a
  prototype adds, is the subject of the next section.
\<close>

fun deleteAt :: "string list \<Rightarrow> string \<Rightarrow> jsval \<Rightarrow> failure + jsval" where
  "deleteAt [] lastPart container =
     (case hasOwnProperty container lastPart of
        Inl e \<Rightarrow> Inl e
      | Inr True \<Rightarrow> deleteProp container lastPart
      | Inr False \<Rightarrow> Inl (PlainError ''The last property in the path didn't exist on the object.''))"
| "deleteAt (part # parts) lastPart obj =
     (case getProp obj part of
        Inl e \<Rightarrow> Inl e
      | Inr child \<Rightarrow>
          (case deleteAt parts lastPart child of
             Inl e \<Rightarrow> Inl e
           | Inr child' \<Rightarrow> Inr (setProp obj part child')))"

definition deleteNested :: "string \<Rightarrow> jsval \<Rightarrow> bool \<times> jsval" where
  "deleteNested path object =
     (let pathParts = splitOn CHR ''.'' path;
          lastPart = last pathParts;
          containingParts = butlast pathParts
      in case deleteAt containingParts lastPart object of
           Inl error \<Rightarrow> (False, object)
         | Inr object' \<Rightarrow> (True, object'))"


section \<open>deleteNested on an object graph\<close>

text \<open>
  \<open>deleteNested(path, object)\<close> takes any object. \<open>docToResource\<close> hands it the
  attributes of one document, a tree of data, and the section above has it on such a
  tree. This section has both copies of the function (\<open>util/misc\<close>, which the adapter
  imports, and \<open>util/utils.js\<close>) on an object graph, where a container can be shared or
  lie on a cycle and where a read can reach a member inherited from a prototype.

  A value is a primitive or a reference to an object of the heap. The heap lists the
  objects at the addresses 0, 1, ...; an address beyond the list holds an object without
  properties. An object is a plain object, the list of its own properties in the order
  they are enumerated (the first entry of a key counts), or an array, the list of its
  slots with \<open>None\<close> for a hole. Every property is a data property as an object literal,
  an assignment or \<open>JSON.parse\<close> creates it (it can be deleted, it is enumerable), except
  those the language fixes: the \<open>length\<close> of an array, the \<open>length\<close> and the characters
  of a string. No value of the heap is a function.
\<close>

datatype val = VUndefined | VNull | VBool bool | VNum int | VStr string | VRef nat

datatype obj = PlainObject "(string \<times> val) list" | ArrayObject "val option list"

























section \<open>pseudoTopSort (util)\<close>

text \<open>
  \<open>edges: {[from: string]: {[to: string]: true}}\<close>: an object whose keys are the nodes
  with outgoing edges; the value of a key is the object whose keys are its children. The
  model keeps, for each key, the children in the order \<open>for(const child in ...)\<close>
  enumerates them.
\<close>

type_synonym edges = "(string \<times> string list) list"

definition edgeCount :: "edges \<Rightarrow> nat" where
  "edgeCount edges = sum_list (map (\<lambda>kv. length (snd kv)) edges)"

lemma edgeCount_update:
  "map_of edges r = Some ch \<Longrightarrow> edgeCount (AList.update r [] edges) + length ch = edgeCount edges"
  by (induction edges) (auto simp: edgeCount_def)

text \<open>
  \<^verbatim>\<open>
  while(roots.length) {
    const thisRoot = <string>roots.shift();
    const thisRootChildren = edges[thisRoot] || {};
    sortResult.push(thisRoot);
    for(const child in thisRootChildren) {
      delete thisRootChildren[child];
      roots.push(child);
    }
  }
  return sortResult;
  \<close>
  The loop works on copies of \<open>roots\<close> and \<open>edges\<close>. After the inner loop every edge out
  of \<open>thisRoot\<close> is deleted, so its entry is empty. Each round removes a root and turns
  the edges it deletes into roots: the number of edges plus the number of roots goes
  down, and the loop ends on every input.
\<close>

function pseudoTopSort_loop :: "edges \<Rightarrow> string list \<Rightarrow> string list \<Rightarrow> string list" where
  "pseudoTopSort_loop edges [] sortResult = sortResult"
| "pseudoTopSort_loop edges (thisRoot # roots) sortResult =
     (case map_of edges thisRoot of
        None \<Rightarrow> pseudoTopSort_loop edges roots (sortResult @ [thisRoot])
      | Some thisRootChildren \<Rightarrow>
          pseudoTopSort_loop (AList.update thisRoot [] edges) (roots @ thisRootChildren)
            (sortResult @ [thisRoot]))"
  by pat_completeness auto
termination
  by (relation "measure (\<lambda>(edges, roots, sortResult). edgeCount edges + length roots)")
     (auto dest: edgeCount_update)

definition pseudoTopSort :: "string list \<Rightarrow> edges \<Rightarrow> string list \<Rightarrow> string list" where
  "pseudoTopSort nodes edges roots = pseudoTopSort_loop edges roots []"

text \<open>The graph the statements speak about: children, edges, reachability from the roots.\<close>

definition childrenOf :: "edges \<Rightarrow> string \<Rightarrow> string list" where
  "childrenOf edges p = (case map_of edges p of None \<Rightarrow> [] | Some ch \<Rightarrow> ch)"

definition hasEdge :: "edges \<Rightarrow> string \<Rightarrow> string \<Rightarrow> bool" where
  "hasEdge edges p c = (c \<in> set (childrenOf edges p))"

definition reachable :: "edges \<Rightarrow> string list \<Rightarrow> string \<Rightarrow> bool" where
  "reachable edges roots n = (\<exists>r \<in> set roots. (r, n) \<in> {(p, c). hasEdge edges p c}\<^sup>*)"

text \<open>
  The precondition of the sort: the roots are distinct and have no incoming edge, the
  children of a node are distinct (they are the keys of an object), and no node has two
  incoming edges.
\<close>

definition singleParent :: "edges \<Rightarrow> string list \<Rightarrow> bool" where
  "singleParent edges roots =
     (distinct roots
      \<and> (\<forall>p. distinct (childrenOf edges p))
      \<and> (\<forall>p c. hasEdge edges p c \<longrightarrow> c \<notin> set roots)
      \<and> (\<forall>p q c. hasEdge edges p c \<and> hasEdge edges q c \<longrightarrow> p = q))"

text \<open>The order of the output without the accumulator, for the proofs.\<close>

function visitOrder :: "edges \<Rightarrow> string list \<Rightarrow> string list" where
  "visitOrder edges [] = []"
| "visitOrder edges (r # roots) =
     (case map_of edges r of
        None \<Rightarrow> r # visitOrder edges roots
      | Some ch \<Rightarrow> r # visitOrder (AList.update r [] edges) (roots @ ch))"
  by pat_completeness auto
termination
  by (relation "measure (\<lambda>(edges, roots). edgeCount edges + length roots)")
     (auto dest: edgeCount_update)

fun occursAfter :: "'a \<Rightarrow> 'a \<Rightarrow> 'a list \<Rightarrow> bool" where
  "occursAfter p c [] = False"
| "occursAfter p c (x # xs) = ((x = p \<and> c \<in> set xs) \<or> occursAfter p c xs)"

section \<open>Schemas, documents and resources\<close>

text \<open>
  What the mapper reads of a store model (\<open>doc.constructor\<close>): its name, the version and
  discriminator keys of its schema options, and the declared paths. Of a declared path: its name, whether its type is an array
  (\<open>Array.isArray(schemaType.options.type)\<close>, the schema's to-many), and the model it
  references, if any.
\<close>

record schemaPath =
  pathName :: string
  holdsArray :: bool
  refModel :: "string option"

record model =
  modelName :: string
  versionKey :: string
  discriminatorKey :: string
  schemaPaths :: "schemaPath list"

text \<open>
  Modelled from the spec: \<open>util.getReferencePaths\<close> and \<open>util.getReferencedModelName\<close> of
  \<open>./lib\<close>, which is not among the sources. The reference paths are "every relationship
  path declared by the schema", in the order of declaration; the referenced model of a
  path is the one its declaration names (\<open>undefined\<close> without one).
\<close>

definition getReferencePaths :: "model \<Rightarrow> string list" where
  "getReferencePaths m = map pathName (filter (\<lambda>p. refModel p \<noteq> None) (schemaPaths m))"

definition getReferencedModelName :: "model \<Rightarrow> string \<Rightarrow> string option" where
  "getReferencedModelName m path =
     (case find (\<lambda>p. pathName p = path) (schemaPaths m) of
        None \<Rightarrow> None
      | Some p \<Rightarrow> refModel p)"

text \<open>
  \<open>getReferencedType(model, path, pluralizer = pluralize.plural)\<close>: \<open>getType\<close> of the
  referenced model name; \<open>getType(undefined)\<close> is a TypeError.
\<close>

definition getReferencedType :: "model \<Rightarrow> string \<Rightarrow> (string \<Rightarrow> string) \<Rightarrow> failure + string" where
  "getReferencedType m path pluralizer =
     (case getReferencedModelName m path of
        None \<Rightarrow> Inl TypeError
      | Some name \<Rightarrow> Inr (getType name pluralizer))"

text \<open>
  A document: its model, \<open>doc.id\<close>, the object \<open>doc.toJSON({virtuals: true, getters:
  true})\<close> returns (its own properties), and what \<open>doc[path]\<close> holds at the paths a query
  populated: a document or nothing, or an array of them.
\<close>

datatype 'd populated = PopulatedOne "'d option" | PopulatedMany "'d option list"

datatype doc =
  Doc (docModel: model) (docId: jsval) (toJSON: "(string \<times> jsval) list")
      (docPaths: "(string \<times> doc populated) list")

text \<open>
  Modelled from the spec: the types \<open>Resource\<close>, \<open>Collection\<close>, \<open>Relationship\<close> and
  \<open>Linkage\<close> (\<open>types/\<close>, not among the sources). A Linkage holds either a single
  \<open>{type, id}\<close> or \<open>null\<close>, or a list of them; a Relationship wraps one Linkage; a Resource
  is \<open>new Resource(type, id, attrs, relationships)\<close>.
\<close>

datatype resourceIdentifier = ResourceIdentifier (riType: string) (riId: string)

datatype linkage =
    LinkageOne "resourceIdentifier option"
  | LinkageMany "resourceIdentifier option list"

datatype relationship = Relationship (linkageOf: linkage)

datatype resource =
  Resource (resourceType: string) (resourceId: jsval) (resourceAttrs: jsval)
           (resourceRelationships: "(string \<times> relationship) list")

text \<open>Whether the value of a Linkage is a list.\<close>

fun valueIsList :: "linkage \<Rightarrow> bool" where
  "valueIsList (LinkageMany entries) = True"
| "valueIsList (LinkageOne entry) = False"

section \<open>docToResource\<close>

text \<open>
  The field selection \<open>fields?: object\<close> maps a type to the array of the names to keep;
  \<open>fields && fields[type]\<close> is the array, or nothing.
\<close>

type_synonym fields = "string \<Rightarrow> string list option"

definition fieldsFor :: "fields option \<Rightarrow> string \<Rightarrow> string list option" where
  "fieldsFor fieldSets type = (case fieldSets of None \<Rightarrow> None | Some f \<Rightarrow> f type)"

text \<open>\<open>obj[k]\<close> where \<open>obj\<close> is known not to be \<open>undefined\<close> or \<open>null\<close>.\<close>

definition ownValue :: "jsval \<Rightarrow> string \<Rightarrow> jsval" where
  "ownValue obj k = (case getProp obj k of Inl e \<Rightarrow> JUndefined | Inr v \<Rightarrow> v)"

text \<open>\<open>delete attrs[k]\<close> on the object \<open>toJSON\<close> returned.\<close>

definition deleteKey :: "string \<Rightarrow> jsval \<Rightarrow> jsval" where
  "deleteKey k obj = (case obj of JObj props \<Rightarrow> JObj (AList.delete k props) | v \<Rightarrow> v)"

text \<open>
  \<^verbatim>\<open>
  const newAttrs = {};
  fields[type].forEach((field) => {
    if(attrs[field]) { newAttrs[field] = attrs[field]; }
  });
  attrs = newAttrs;
  \<close>
\<close>

definition selectFields :: "string list \<Rightarrow> jsval \<Rightarrow> jsval" where
  "selectFields fs attrs =
     JObj (fold (\<lambda>field newAttrs.
                   if truthy (ownValue attrs field)
                   then AList.update field (ownValue attrs field) newAttrs
                   else newAttrs) fs [])"

text \<open>
  \<^verbatim>\<open>
  const idOrNull = (docOrIdOrNull && docOrIdOrNull._id)
    ? String(docOrIdOrNull._id)
    : docOrIdOrNull ? String(docOrIdOrNull) : null;
  linkage.push(idOrNull ? {type: referencedType, id: idOrNull} : null);
  \<close>
\<close>

definition idOrNull :: "jsval \<Rightarrow> failure + string option" where
  "idOrNull docOrIdOrNull =
     (if truthy docOrIdOrNull \<and> truthy (ownValue docOrIdOrNull ''_id'')
      then map_sum id Some (js_String (ownValue docOrIdOrNull ''_id''))
      else if truthy docOrIdOrNull then map_sum id Some (js_String docOrIdOrNull)
      else Inr None)"

definition linkageEntry :: "string \<Rightarrow> jsval \<Rightarrow> failure + resourceIdentifier option" where
  "linkageEntry referencedType docOrIdOrNull =
     (case idOrNull docOrIdOrNull of
        Inl e \<Rightarrow> Inl e
      | Inr None \<Rightarrow> Inr None
      | Inr (Some i) \<Rightarrow> Inr (if i \<noteq> [] then Some (ResourceIdentifier referencedType i) else None))"

text \<open>\<open>xs.map(f)\<close> and a \<open>forEach\<close> that pushes \<open>f(x)\<close>, where \<open>f\<close> may throw.\<close>

fun mapFailing :: "('a \<Rightarrow> failure + 'b) \<Rightarrow> 'a list \<Rightarrow> failure + 'b list" where
  "mapFailing f [] = Inr []"
| "mapFailing f (x # xs) =
     (case f x of
        Inl e \<Rightarrow> Inl e
      | Inr y \<Rightarrow> (case mapFailing f xs of Inl e \<Rightarrow> Inl e | Inr ys \<Rightarrow> Inr (y # ys)))"

text \<open>A \<open>forEach\<close> that updates a state, where the body may throw.\<close>

fun foldFailing :: "('a \<Rightarrow> 's \<Rightarrow> failure + 's) \<Rightarrow> 'a list \<Rightarrow> 's \<Rightarrow> failure + 's" where
  "foldFailing f [] s = Inr s"
| "foldFailing f (x # xs) s = (case f x s of Inl e \<Rightarrow> Inl e | Inr s' \<Rightarrow> foldFailing f xs s')"

text \<open>The slots \<open>forEach\<close> visits: it skips the holes of an array.\<close>

definition presentElems :: "'a option list \<Rightarrow> 'a list" where
  "presentElems xs = concat (map (\<lambda>x. case x of None \<Rightarrow> [] | Some v \<Rightarrow> [v]) xs)"

text \<open>
  \<^verbatim>\<open>
  let isToOneRelationship = false;
  if(!Array.isArray(jsonValAtPath)) {
    jsonValAtPath = [jsonValAtPath];
    isToOneRelationship = true;
  }
  let linkage = [];
  jsonValAtPath.forEach((docOrIdOrNull) => { ... linkage.push(...) });
  linkage = new Linkage(isToOneRelationship ? linkage[0] : linkage);
  \<close>
\<close>

definition buildLinkage :: "string \<Rightarrow> jsval \<Rightarrow> failure + linkage" where
  "buildLinkage referencedType jsonValAtPath =
     (case jsonValAtPath of
        JArr elems \<Rightarrow>
          (case mapFailing (linkageEntry referencedType) (presentElems elems) of
             Inl e \<Rightarrow> Inl e
           | Inr linkage \<Rightarrow> Inr (LinkageMany linkage))
      | v \<Rightarrow>
          (case linkageEntry referencedType v of
             Inl e \<Rightarrow> Inl e
           | Inr entry \<Rightarrow> Inr (LinkageOne entry)))"

text \<open>
  The body of \<open>refPaths.forEach((path) => ...)\<close> on the state it changes, \<open>attrs\<close> and
  \<open>relationships\<close>: skip a path the selection leaves out; read the value at the path;
  find the referenced type; delete the attribute; build the Linkage; store the
  Relationship under the path.
\<close>

definition relationshipStep ::
  "model \<Rightarrow> (string \<Rightarrow> string) \<Rightarrow> string list option \<Rightarrow> string
     \<Rightarrow> jsval \<times> (string \<times> relationship) list
     \<Rightarrow> failure + jsval \<times> (string \<times> relationship) list" where
  "relationshipStep m defaultPluralizer selected path state =
     (let (attrs, relationships) = state in
      if (case selected of None \<Rightarrow> False | Some fs \<Rightarrow> path \<notin> set fs) then Inr state
      else
        (case reduceGetProp (splitOn CHR ''.'' path) attrs of
           Inl e \<Rightarrow> Inl e
         | Inr jsonValAtPath \<Rightarrow>
             (case getReferencedType m path defaultPluralizer of
                Inl e \<Rightarrow> Inl e
              | Inr referencedType \<Rightarrow>
                  (let attrs' = snd (deleteNested path attrs) in
                   case buildLinkage referencedType jsonValAtPath of
                     Inl e \<Rightarrow> Inl e
                   | Inr linkage \<Rightarrow>
                       Inr (attrs', AList.update path (Relationship linkage) relationships)))))"

text \<open>
  \<open>static docToResource(doc, pluralizer = pluralize.plural, fields?)\<close>. The first
  argument of the model is the \<open>pluralize\<close> package, whose \<open>plural\<close> the referenced types
  always use.
\<close>

definition docToResource ::
  "inflector \<Rightarrow> doc \<Rightarrow> (string \<Rightarrow> string) \<Rightarrow> fields option \<Rightarrow> failure + resource" where
  "docToResource pluralize doc pluralizer fieldSets =
     (let type = getType (modelName (docModel doc)) pluralizer;
          refPaths = getReferencePaths (docModel doc);
          attrs = JObj (toJSON doc);
          attrs = deleteKey ''id'' attrs;
          attrs = deleteKey ''_id'' attrs;
          attrs = deleteKey (versionKey (docModel doc)) attrs;
          attrs = deleteKey (discriminatorKey (docModel doc)) attrs;
          attrs = (case fieldsFor fieldSets type of None \<Rightarrow> attrs | Some fs \<Rightarrow> selectFields fs attrs)
      in case foldFailing (relationshipStep (docModel doc) (plural pluralize) (fieldsFor fieldSets type))
                refPaths (attrs, []) of
           Inl e \<Rightarrow> Inl e
         | Inr (attrs', relationships) \<Rightarrow> Inr (Resource type (docId doc) attrs' relationships))"

text \<open>
  For the statements: the attributes after the bookkeeping keys are deleted and the
  selection is applied, and the state of the loop over the reference paths when it
  reaches a path.
\<close>

definition strippedAttrs :: "doc \<Rightarrow> (string \<Rightarrow> string) \<Rightarrow> fields option \<Rightarrow> jsval" where
  "strippedAttrs doc pluralizer fieldSets =
     (let type = getType (modelName (docModel doc)) pluralizer;
          attrs = JObj (toJSON doc);
          attrs = deleteKey ''id'' attrs;
          attrs = deleteKey ''_id'' attrs;
          attrs = deleteKey (versionKey (docModel doc)) attrs;
          attrs = deleteKey (discriminatorKey (docModel doc)) attrs
      in (case fieldsFor fieldSets type of None \<Rightarrow> attrs | Some fs \<Rightarrow> selectFields fs attrs))"

definition stateBefore ::
  "inflector \<Rightarrow> doc \<Rightarrow> (string \<Rightarrow> string) \<Rightarrow> fields option \<Rightarrow> string
     \<Rightarrow> failure + jsval \<times> (string \<times> relationship) list" where
  "stateBefore pluralize doc pluralizer fieldSets path =
     foldFailing (relationshipStep (docModel doc) (plural pluralize)
                    (fieldsFor fieldSets (getType (modelName (docModel doc)) pluralizer)))
       (takeWhile (\<lambda>q. q \<noteq> path) (getReferencePaths (docModel doc)))
       (strippedAttrs doc pluralizer fieldSets, [])"

section \<open>The adapter and the store\<close>

text \<open>
  The store is the document database behind the mongoose models; the adapter reaches it
  only through the calls below, and the model takes what they return as given. A query
  is built on a query builder (\<open>model.find(conditions)\<close> or \<open>model.findOne(conditions)\<close>,
  then \<open>sort\<close>, \<open>where\<close>, \<open>skip\<close>, \<open>limit\<close>, \<open>populate\<close>) and sent with \<open>exec()\<close>:
  \<open>findOne\<close> resolves to a document or \<open>null\<close>, \<open>find\<close> to an array of documents.
  \<open>hydrate({}).set(changeSet)\<close> builds a document from a change set; of the result the
  adapter reads \<open>modifiedPaths()\<close> and \<open>toObject()\<close>.
\<close>

type_synonym criteria = "(string \<times> string) list"

record queryBuilder =
  qbMode :: mode
  qbConditions :: idQuery
  qbSort :: "string option"
  qbWhere :: "criteria option"
  qbSkip :: "nat option"
  qbLimit :: "nat option"
  qbPopulate :: "string list"

record hydrated =
  modifiedPaths :: "string list"
  toObject :: "(string \<times> jsval) list"

record store =
  execFindOne :: "queryBuilder \<Rightarrow> doc option"
  execFind :: "queryBuilder \<Rightarrow> doc list"
  countDocs :: "criteria \<Rightarrow> nat"
  hydrateSet :: "(string \<times> jsval) list \<Rightarrow> hydrated"
  findByIdAndUpdate :: "jsval \<Rightarrow> (string \<times> jsval) list \<Rightarrow> doc option"

text \<open>What a query resolves to: \<open>null\<close>, one document, or an array (of documents or \<open>null\<close>).\<close>

datatype docs = DocsNull | DocsOne doc | DocsArray "doc option list"

definition exec :: "store \<Rightarrow> queryBuilder \<Rightarrow> docs" where
  "exec st qb =
     (case qbMode qb of
        FindOne \<Rightarrow> (case execFindOne st qb of None \<Rightarrow> DocsNull | Some d \<Rightarrow> DocsOne d)
      | Find \<Rightarrow> DocsArray (map Some (execFind st qb)))"

text \<open>
  The adapter: the registry \<open>this.models\<close> (a registered model with its schema and its
  store calls) and \<open>this.inflector\<close>.
  \<^verbatim>\<open>
  getModel(modelName) {
    if(!this.models[modelName]) {
      const err = new Error(`The model "${modelName}" has not been registered ...`);
      (<any>err).status = 404;
      throw err;
    }
    return this.models[modelName];
  }
  \<close>
\<close>

record adapter =
  models :: "string \<Rightarrow> (model \<times> store) option"
  adapterInflector :: inflector

definition getModel :: "adapter \<Rightarrow> string \<Rightarrow> failure + model \<times> store" where
  "getModel a name = (case models a name of None \<Rightarrow> Inl (ModelNotRegistered name) | Some ms \<Rightarrow> Inr ms)"

text \<open>
  Modelled from the spec: \<open>util.errorHandler\<close> of \<open>./lib\<close>, which is not among the
  sources, the single normalization step at the end of every promise chain. The spec has
  it reshape the store's own errors (validation failures, constraint violations) and pass
  every other error on as it is; the store calls of the model do not fail, so every
  failure of the model passes unchanged.
\<close>

definition errorHandler :: "failure \<Rightarrow> failure" where
  "errorHandler err = err"

section \<open>docsToResourceOrCollection\<close>

text \<open>
  A single Resource, a Collection, or \<open>undefined\<close> (what \<open>docs[0]\<close> is on an empty array).
\<close>

datatype resourceOrCollection = Single resource | Collection "resource list" | NoResource

fun isCollection :: "resourceOrCollection \<Rightarrow> bool" where
  "isCollection (Collection rs) = True"
| "isCollection r = False"

text \<open>
  \<^verbatim>\<open>
  static docsToResourceOrCollection(docs, makeCollection, pluralizer, fields?) {
    if(!docs || (!makeCollection && Array.isArray(docs) && docs.length === 0)) {
      throw new APIError(404, undefined, "No matching resource found.");
    }
    docs = !Array.isArray(docs) ? [docs] : docs;
    docs = docs.map((it) => this.docToResource(it, pluralizer, fields));
    return makeCollection ? new Collection(docs) : docs[0];
  }
  \<close>
  \<open>docToResource(null)\<close> is a TypeError.
\<close>

definition docsToResourceOrCollection ::
  "inflector \<Rightarrow> docs \<Rightarrow> bool \<Rightarrow> (string \<Rightarrow> string) \<Rightarrow> fields option
     \<Rightarrow> failure + resourceOrCollection" where
  "docsToResourceOrCollection pluralize ds makeCollection pluralizer fieldSets =
     (if ds = DocsNull \<or> (\<not> makeCollection \<and> ds = DocsArray [])
      then Inl (Api (APIError 404 None ''No matching resource found.'' None))
      else
        (case mapFailing
                (\<lambda>it. case it of
                         None \<Rightarrow> Inl TypeError
                       | Some d \<Rightarrow> docToResource pluralize d pluralizer fieldSets)
                (case ds of DocsArray xs \<Rightarrow> xs | DocsOne d \<Rightarrow> [Some d] | DocsNull \<Rightarrow> [None]) of
           Inl e \<Rightarrow> Inl e
         | Inr rs \<Rightarrow>
             Inr (if makeCollection then Collection rs
                  else (case rs of [] \<Rightarrow> NoResource | r # rest \<Rightarrow> Single r))))"

section \<open>Find\<close>

text \<open>
  Modelled from the spec: the query types (\<open>types/Query\<close>; only CreateQuery is among the
  sources). A FindQuery carries the target type (\<open>using\<close>), the include paths
  (\<open>populates\<close>), the field selection (\<open>select\<close>), the sort fields, offset and limit,
  the id filter \<open>getIdOrIds()\<close> returns and the other filters \<open>getFilters(true)\<close> returns.
  \<open>util.toMongoCriteria\<close> turns the filters into the store's criteria; the model keeps
  them as they are.
\<close>

datatype direction = ASC | DESC

datatype sortField = SortField (sortFieldName: string) (sortDirection: direction)

record findQuery =
  fqUsing :: string
  fqPopulates :: "string list option"
  fqSelect :: "fields option"
  fqSort :: "sortField list option"
  fqOffset :: "nat option"
  fqLimit :: "nat option"
  fqIdOrIds :: idOrIds
  fqFilters :: criteria

definition toMongoCriteria :: "criteria \<Rightarrow> criteria" where
  "toMongoCriteria otherFilters = otherFilters"

text \<open>\<open>!idOrIds\<close> is true for \<open>undefined\<close> and for the empty string; an array is truthy.\<close>

fun idsTruthy :: "idOrIds \<Rightarrow> bool" where
  "idsTruthy IdUndefined = False"
| "idsTruthy (IdString s) = (s \<noteq> [])"
| "idsTruthy (IdArray ids) = True"

fun idsIsArray :: "idOrIds \<Rightarrow> bool" where
  "idsIsArray (IdArray ids) = True"
| "idsIsArray i = False"

fun idsIsString :: "idOrIds \<Rightarrow> bool" where
  "idsIsString (IdString s) = True"
| "idsIsString i = False"

text \<open>\<open>const makeCollection = !idOrIds || Array.isArray(idOrIds) ? true : false;\<close>\<close>

definition makeCollectionFor :: "idOrIds \<Rightarrow> bool" where
  "makeCollectionFor i = (\<not> idsTruthy i \<or> idsIsArray i)"

text \<open>
  The body of \<open>includePaths.map((it) => it.split(".")).forEach((pathParts) => ...)\<close>:
  \<^verbatim>\<open>
  if(!arrayContains(refPaths, pathParts[0])) {
    const title = "Invalid include path.";
    const detail = `Resources of type "${type}" don't have a(n) "${pathParts[0]}" relationship.`;
    throw new APIError(400, undefined, title, detail);
  }
  if(pathParts.length > 1) {
    throw new APIError(501, undefined, "Multi-level include paths aren't yet supported.");
  }
  populatedPaths.push(pathParts[0]);
  queryBuilder.populate(pathParts[0]);
  \<close>
  \<open>arrayContains\<close> (\<open>util/arrays\<close>) is membership.
\<close>

definition invalidIncludeDetail :: "string \<Rightarrow> string \<Rightarrow> string" where
  "invalidIncludeDetail type part =
     ''Resources of type '' @ [CHR 0x22] @ type @ [CHR 0x22] @ '' don't have a(n) ''
       @ [CHR 0x22] @ part @ [CHR 0x22] @ '' relationship.''"

definition checkIncludePath :: "string \<Rightarrow> string list \<Rightarrow> string list \<Rightarrow> failure + string" where
  "checkIncludePath type refPaths pathParts =
     (if hd pathParts \<notin> set refPaths
      then Inl (Api (APIError 400 None ''Invalid include path.''
                       (Some (invalidIncludeDetail type (hd pathParts)))))
      else if length pathParts > 1
      then Inl (Api (APIError 501 None ''Multi-level include paths aren't yet supported.'' None))
      else Inr (hd pathParts))"

definition validateIncludes :: "string \<Rightarrow> string list \<Rightarrow> string list \<Rightarrow> failure + string list" where
  "validateIncludes type refPaths includePaths =
     mapFailing (checkIncludePath type refPaths) (map (splitOn CHR ''.'') includePaths)"

text \<open>
  The query builder when \<open>exec()\<close> is called: the mode and conditions of the id filter,
  the sort string, the criteria when there are filters, \<open>skip\<close> and \<open>limit\<close> when the
  offset and the limit are truthy (not zero), and the populated paths.
\<close>

definition sortString :: "sortField list \<Rightarrow> string" where
  "sortString sorts =
     joinWith '' '' (map (\<lambda>it. (if sortDirection it = DESC then ''-'' else '''') @ sortFieldName it) sorts)"

definition findQueryBuilder :: "findQuery \<Rightarrow> mode \<Rightarrow> idQuery \<Rightarrow> string list \<Rightarrow> queryBuilder" where
  "findQueryBuilder query mode idQuery populatedPaths =
     \<lparr> qbMode = mode,
       qbConditions = idQuery,
       qbSort = map_option sortString (fqSort query),
       qbWhere = (if fqFilters query \<noteq> [] then Some (toMongoCriteria (fqFilters query)) else None),
       qbSkip = (case fqOffset query of Some n \<Rightarrow> (if n \<noteq> 0 then Some n else None) | None \<Rightarrow> None),
       qbLimit = (case fqLimit query of Some n \<Rightarrow> (if n \<noteq> 0 then Some n else None) | None \<Rightarrow> None),
       qbPopulate = populatedPaths \<rparr>"

text \<open>
  The included resources: for every document found and every populated path, \<open>doc[path]\<close>
  as an array (\<open>[doc[path]]\<close> when it is not one), each entry that is truthy mapped by
  \<open>docToResource\<close>.
\<close>

definition refDocs :: "doc \<Rightarrow> string \<Rightarrow> doc option list" where
  "refDocs d path =
     (case map_of (docPaths d) path of
        None \<Rightarrow> [None]
      | Some (PopulatedOne x) \<Rightarrow> [x]
      | Some (PopulatedMany xs) \<Rightarrow> xs)"

definition docsFound :: "docs \<Rightarrow> doc list" where
  "docsFound ds =
     (case ds of DocsNull \<Rightarrow> [] | DocsOne d \<Rightarrow> [d] | DocsArray xs \<Rightarrow> presentElems xs)"

definition includedResources ::
  "inflector \<Rightarrow> (string \<Rightarrow> string) \<Rightarrow> fields option \<Rightarrow> string list \<Rightarrow> docs
     \<Rightarrow> failure + resource list" where
  "includedResources pluralize pluralizer fieldSets populatedPaths ds =
     mapFailing (\<lambda>it. docToResource pluralize it pluralizer fieldSets)
       (concat (map (\<lambda>d. concat (map (\<lambda>path. presentElems (refDocs d path)) populatedPaths))
                  (docsFound ds)))"

text \<open>
  The promises of \<open>find\<close>, once the query is built: the query is sent, the documents
  found give the included resources (\<open>null\<close> when the query has no include paths) and
  then the primary resources; the size of the collection is counted when paginating
  (\<open>typeof idOrIds !== 'string'\<close> and an offset or a limit is given), and is \<open>null\<close>
  otherwise. What the promises reject with goes through \<open>errorHandler\<close>.
\<close>

definition findExec ::
  "inflector \<Rightarrow> adapter \<Rightarrow> findQuery \<Rightarrow> store \<Rightarrow> mode \<Rightarrow> idQuery \<Rightarrow> string list option
     \<Rightarrow> failure + resourceOrCollection \<times> resource list option \<times> nat option" where
  "findExec pluralize a query st mode idQuery populated =
     (let pluralizer = plural (adapterInflector a);
          isPaginating = (\<not> idsIsString (fqIdOrIds query)
                            \<and> (fqOffset query \<noteq> None \<or> fqLimit query \<noteq> None));
          collectionSize = (if isPaginating
                            then Some (countDocs st (toMongoCriteria (fqFilters query)))
                            else None);
          makeCollection = makeCollectionFor (fqIdOrIds query);
          ds = exec st (findQueryBuilder query mode idQuery
                          (case populated of None \<Rightarrow> [] | Some populatedPaths \<Rightarrow> populatedPaths))
      in case (case populated of
                 None \<Rightarrow> Inr None
               | Some populatedPaths \<Rightarrow>
                   map_sum id Some
                     (includedResources pluralize pluralizer (fqSelect query) populatedPaths ds)) of
           Inl e \<Rightarrow> Inl (errorHandler e)
         | Inr included \<Rightarrow>
             (case docsToResourceOrCollection pluralize ds makeCollection pluralizer
                     (fqSelect query) of
                Inl e \<Rightarrow> Inl (errorHandler e)
              | Inr primary \<Rightarrow> Inr (primary, included, collectionSize)))"

text \<open>
  The include paths of a query: nothing without \<open>populates\<close>, otherwise the populated
  paths, or what the validation throws.
\<close>

definition populatedPathsOf :: "findQuery \<Rightarrow> model \<Rightarrow> failure + string list option" where
  "populatedPathsOf query m =
     (case fqPopulates query of
        None \<Rightarrow> Inr None
      | Some includePaths \<Rightarrow>
          (case validateIncludes (fqUsing query) (getReferencePaths m) includePaths of
             Inl e \<Rightarrow> Inl e
           | Inr populatedPaths \<Rightarrow> Inr (Some populatedPaths)))"

text \<open>
  \<open>find(query)\<close>: the model lookup, the id filter and the include paths throw before the
  query is sent. The result is the triple of the primary resources, the included
  resources and the size of the collection.
\<close>

definition adapterFind ::
  "inflector \<Rightarrow> adapter \<Rightarrow> findQuery
     \<Rightarrow> failure + resourceOrCollection \<times> resource list option \<times> nat option" where
  "adapterFind pluralize a query =
     (case getModel a (getModelName (fqUsing query) (singular pluralize)) of
        Inl e \<Rightarrow> Inl e
      | Inr (m, st) \<Rightarrow>
     (case getIdQueryType (fqIdOrIds query) of
        Inl e \<Rightarrow> Inl e
      | Inr (mode, idQuery) \<Rightarrow>
     (case populatedPathsOf query m of
        Inl e \<Rightarrow> Inl e
      | Inr populated \<Rightarrow> findExec pluralize a query st mode idQuery populated)))"

section \<open>Delete\<close>

text \<open>
  A DeleteQuery carries the target type and the id filter. The model of \<open>delete\<close> returns
  the store calls the operation makes, in order, with its outcome: the \<open>exec()\<close> of the
  query and the \<open>remove()\<close> of each document found.
  \<^verbatim>\<open>
  delete(query: DeleteQuery) {
    const { using: parentType } = query;
    const idOrIds = query.getIdOrIds();
    const model = this.getModel(this.constructor.getModelName(parentType));
    const [mode, idQuery] = this.constructor.getIdQueryType(idOrIds);
    if(!idOrIds) {
      return Promise.reject(
        new APIError(400, undefined, "You must specify some resources to delete"));
    }
    const queryBuilder = model[mode](idQuery);
    return Promise.resolve(queryBuilder.exec()).then((docs) => {
      if(!docs) { throw new APIError(404, undefined, "No matching resource found."); }
      forEachArrayOrVal(docs, (it) => { it.remove(); });
      return docs;
    }).catch(util.errorHandler);
  }
  \<close>
\<close>

record deleteQuery =
  dqUsing :: string
  dqIdOrIds :: idOrIds

datatype storeCall = QueryExec queryBuilder | DocRemove doc

definition deleteQueryBuilder :: "mode \<Rightarrow> idQuery \<Rightarrow> queryBuilder" where
  "deleteQueryBuilder mode idQuery =
     \<lparr> qbMode = mode, qbConditions = idQuery, qbSort = None, qbWhere = None,
       qbSkip = None, qbLimit = None, qbPopulate = [] \<rparr>"

text \<open>
  \<open>forEachArrayOrVal(docs, (it) => { it.remove(); })\<close>: the calls up to the first entry
  that is \<open>null\<close>, where \<open>it.remove\<close> is a TypeError.
\<close>

fun removeEach :: "doc option list \<Rightarrow> storeCall list \<times> failure option" where
  "removeEach [] = ([], None)"
| "removeEach (None # xs) = ([], Some TypeError)"
| "removeEach (Some d # xs) = (case removeEach xs of (calls, r) \<Rightarrow> (DocRemove d # calls, r))"

definition adapterDelete ::
  "inflector \<Rightarrow> adapter \<Rightarrow> deleteQuery \<Rightarrow> storeCall list \<times> (failure + docs)" where
  "adapterDelete pluralize a query =
     (case getModel a (getModelName (dqUsing query) (singular pluralize)) of
        Inl e \<Rightarrow> ([], Inl e)
      | Inr (m, st) \<Rightarrow>
     (case getIdQueryType (dqIdOrIds query) of
        Inl e \<Rightarrow> ([], Inl e)
      | Inr (mode, idQuery) \<Rightarrow>
          if \<not> idsTruthy (dqIdOrIds query)
          then ([], Inl (Api (APIError 400 None ''You must specify some resources to delete'' None)))
          else
            (let queryBuilder = deleteQueryBuilder mode idQuery;
                 ds = exec st queryBuilder
             in if ds = DocsNull
                then ([QueryExec queryBuilder],
                      Inl (errorHandler (Api (APIError 404 None ''No matching resource found.'' None))))
                else (case removeEach (case ds of DocsArray xs \<Rightarrow> xs | DocsOne d \<Rightarrow> [Some d]
                                         | DocsNull \<Rightarrow> [None]) of
                        (calls, Some e) \<Rightarrow> (QueryExec queryBuilder # calls, Inl (errorHandler e))
                      | (calls, None) \<Rightarrow> (QueryExec queryBuilder # calls, Inr ds)))))"

section \<open>Update\<close>

text \<open>
  Modelled from the spec: \<open>util.resourceToDocObject\<close> of \<open>./lib\<close>, which is not among
  the sources: "copy attributes and relationship linkage ids into a flat object suitable
  for store write, keyed by the same relationship path names".
\<close>

definition linkageIds :: "linkage \<Rightarrow> jsval" where
  "linkageIds l =
     (case l of
        LinkageOne None \<Rightarrow> JNull
      | LinkageOne (Some ri) \<Rightarrow> JStr (riId ri)
      | LinkageMany entries \<Rightarrow>
          JArr (map (\<lambda>e. case e of None \<Rightarrow> Some JNull | Some ri \<Rightarrow> Some (JStr (riId ri))) entries))"

definition resourceToDocObject :: "resource \<Rightarrow> (string \<times> jsval) list" where
  "resourceToDocObject r =
     fold (\<lambda>(name, rel) acc. AList.update name (linkageIds (linkageOf rel)) acc)
       (resourceRelationships r)
       (case resourceAttrs r of JObj props \<Rightarrow> props | v \<Rightarrow> [])"

text \<open>
  \<^verbatim>\<open>
  const updateDoc = NewModelConstructor.hydrate({}).set(changeSet);
  const modifiedPaths = updateDoc.modifiedPaths();
  const updateDocObject = updateDoc.toObject();
  const finalUpdate = modifiedPaths.reduce((acc, key) => {
    acc[key] = updateDocObject[key];
    return acc;
  }, {});
  \<close>
\<close>

definition finalUpdateOf :: "hydrated \<Rightarrow> (string \<times> jsval) list" where
  "finalUpdateOf updateDoc =
     fold (\<lambda>key acc. AList.update key (ownValue (JObj (toObject updateDoc)) key) acc)
       (modifiedPaths updateDoc) []"

text \<open>
  An UpdateQuery carries the target type and the patch, a Resource or a Collection. The
  model of \<open>update\<close> returns the calls \<open>parentModel.findByIdAndUpdate(resourceUpdate.id,
  finalUpdate, updateOptions)\<close> it makes, in order, with its outcome. The options are the
  same in every call: \<open>{new: true, runValidators: true, context: 'query', upsert: false}\<close>.
\<close>

record updateQuery =
  uqUsing :: string
  uqPatch :: resourceOrCollection

datatype updateCall = FindByIdAndUpdate (updateId: jsval) (updateObject: "(string \<times> jsval) list")

text \<open>
  The function \<open>mapResources\<close> applies to each resource of the patch: it looks up the
  model of the resource's own type, builds the final update and sends it.
\<close>

definition updateOne ::
  "adapter \<Rightarrow> store \<Rightarrow> resource \<Rightarrow> failure + updateCall \<times> doc option" where
  "updateOne a parentStore resourceUpdate =
     (case getModel a (getModelName (resourceType resourceUpdate) (singular (adapterInflector a))) of
        Inl e \<Rightarrow> Inl e
      | Inr (newModel, newStore) \<Rightarrow>
          (let changeSet = resourceToDocObject resourceUpdate;
               updateDoc = hydrateSet newStore changeSet;
               finalUpdate = finalUpdateOf updateDoc
           in Inr (FindByIdAndUpdate (resourceId resourceUpdate) finalUpdate,
                   findByIdAndUpdate parentStore (resourceId resourceUpdate) finalUpdate)))"

text \<open>\<open>resources.map(mapFn)\<close>: the calls made before a throw stay made.\<close>

fun updateEach ::
  "adapter \<Rightarrow> store \<Rightarrow> resource list \<Rightarrow> updateCall list \<times> (failure + doc option list)" where
  "updateEach a parentStore [] = ([], Inr [])"
| "updateEach a parentStore (r # rs) =
     (case updateOne a parentStore r of
        Inl e \<Rightarrow> ([], Inl e)
      | Inr (call, d) \<Rightarrow>
          (case updateEach a parentStore rs of
             (calls, Inl e) \<Rightarrow> (call # calls, Inl e)
           | (calls, Inr ds) \<Rightarrow> (call # calls, Inr (d # ds))))"

definition adapterUpdate ::
  "inflector \<Rightarrow> adapter \<Rightarrow> updateQuery \<Rightarrow> updateCall list \<times> (failure + resourceOrCollection)" where
  "adapterUpdate pluralize a query =
     (case getModel a (getModelName (uqUsing query) (singular (adapterInflector a))) of
        Inl e \<Rightarrow> ([], Inl e)
      | Inr (parentModel, parentStore) \<Rightarrow>
          (case uqPatch query of
             NoResource \<Rightarrow> ([], Inl TypeError)
           | Single r \<Rightarrow>
               (case updateEach a parentStore [r] of
                  (calls, Inl e) \<Rightarrow> (calls, Inl e)
                | (calls, Inr ds) \<Rightarrow>
                    (calls, map_sum errorHandler id
                       (docsToResourceOrCollection pluralize (DocsArray ds) False
                          (plural (adapterInflector a)) None)))
           | Collection rs \<Rightarrow>
               (case updateEach a parentStore rs of
                  (calls, Inl e) \<Rightarrow> (calls, Inl e)
                | (calls, Inr ds) \<Rightarrow>
                    (calls, map_sum errorHandler id
                       (docsToResourceOrCollection pluralize (DocsArray ds) True
                          (plural (adapterInflector a)) None)))))"

text \<open>The resources of a patch.\<close>

fun patchResources :: "resourceOrCollection \<Rightarrow> resource list" where
  "patchResources (Single r) = [r]"
| "patchResources (Collection rs) = rs"
| "patchResources NoResource = []"

text \<open>The paths a patch names: its attributes and its relationships.\<close>

definition patchPaths :: "resource \<Rightarrow> string set" where
  "patchPaths r =
     (case resourceAttrs r of JObj props \<Rightarrow> fst ` set props | v \<Rightarrow> {})
       \<union> fst ` set (resourceRelationships r)"

section \<open>Fixtures\<close>

text \<open>
  The School model of the repository's test fixtures, as far as the mapper reads it: an
  Organization with the added paths \<open>isCollege: Boolean\<close> and \<open>principal: {ref: "Person",
  type: ObjectId}\<close>, whose \<open>liaisons\<close> are declared as an array of references to Person. The inflector of the examples adds and removes a final
  \<open>s\<close>.
\<close>

definition schoolModel :: model where
  "schoolModel =
     \<lparr> modelName = ''School'', versionKey = ''__v'', discriminatorKey = ''__t'',
       schemaPaths =
         [\<lparr> pathName = ''name'', holdsArray = False, refModel = None \<rparr>,
          \<lparr> pathName = ''liaisons'', holdsArray = True, refModel = Some ''Person'' \<rparr>,
          \<lparr> pathName = ''isCollege'', holdsArray = False, refModel = None \<rparr>,
          \<lparr> pathName = ''principal'', holdsArray = False, refModel = Some ''Person'' \<rparr>,
          \<lparr> pathName = ''_id'', holdsArray = False, refModel = None \<rparr>,
          \<lparr> pathName = ''__v'', holdsArray = False, refModel = None \<rparr>,
          \<lparr> pathName = ''__t'', holdsArray = False, refModel = None \<rparr>] \<rparr>"

definition addS :: "string \<Rightarrow> string" where
  "addS w = w @ ''s''"

definition dropS :: "string \<Rightarrow> string" where
  "dropS w = (if w \<noteq> [] \<and> last w = CHR ''s'' then butlast w else w)"

definition exampleInflector :: inflector where
  "exampleInflector = \<lparr> plural = addS, singular = dropS \<rparr>"

text \<open>
  A School document as \<open>toJSON\<close> serializes it, with the properties \<open>extra\<close> (the
  liaisons, when it has the property) and the stored value of \<open>principal\<close>.
\<close>

definition schoolDoc :: "jsval \<Rightarrow> (string \<times> jsval) list \<Rightarrow> doc" where
  "schoolDoc principalValue extra =
     Doc schoolModel (JStr ''5a5934cfc810949cebeecc33'')
       ([(''_id'', JObjectId ''5a5934cfc810949cebeecc33''),
         (''name'', JStr ''City College''),
         (''isCollege'', JBool False),
         (''principal'', principalValue)] @ extra @
        [(''__t'', JStr ''School''),
         (''__v'', JNum 0),
         (''id'', JStr ''5a5934cfc810949cebeecc33'')]) []"

text \<open>
  A store that holds no document, and one whose School collection holds the document
  \<open>d\<close> under every query. Their document construction reports as modified the paths
  the change set sets, and fills in the default \<open>isCollege: false\<close>.
\<close>

definition exampleHydrate :: "(string \<times> jsval) list \<Rightarrow> hydrated" where
  "exampleHydrate changeSet =
     \<lparr> modifiedPaths = map fst changeSet,
       toObject = changeSet @ [(''isCollege'', JBool False)] \<rparr>"

definition emptyStore :: store where
  "emptyStore =
     \<lparr> execFindOne = (\<lambda>qb. None), execFind = (\<lambda>qb. []), countDocs = (\<lambda>c. 0),
       hydrateSet = exampleHydrate, findByIdAndUpdate = (\<lambda>i u. None) \<rparr>"

definition storeOf :: "doc \<Rightarrow> store" where
  "storeOf d =
     \<lparr> execFindOne = (\<lambda>qb. Some d), execFind = (\<lambda>qb. [d]), countDocs = (\<lambda>c. 1),
       hydrateSet = exampleHydrate, findByIdAndUpdate = (\<lambda>i u. Some d) \<rparr>"

text \<open>
  A store whose School collection answers with the document \<open>d\<close> the queries that
  populate exactly \<open>paths\<close>, and with nothing every other query.
\<close>

definition storePopulating :: "string list \<Rightarrow> doc \<Rightarrow> store" where
  "storePopulating paths d =
     \<lparr> execFindOne = (\<lambda>qb. if qbPopulate qb = paths then Some d else None),
       execFind = (\<lambda>qb. if qbPopulate qb = paths then [d] else []),
       countDocs = (\<lambda>c. 1),
       hydrateSet = exampleHydrate, findByIdAndUpdate = (\<lambda>i u. None) \<rparr>"

definition schoolAdapter :: "store \<Rightarrow> adapter" where
  "schoolAdapter st =
     \<lparr> models = (\<lambda>name. if name = ''School'' then Some (schoolModel, st) else None),
       adapterInflector = exampleInflector \<rparr>"

definition findById :: "idOrIds \<Rightarrow> string list option \<Rightarrow> findQuery" where
  "findById i includePaths =
     \<lparr> fqUsing = ''schools'', fqPopulates = includePaths, fqSelect = None, fqSort = None,
       fqOffset = None, fqLimit = None, fqIdOrIds = i, fqFilters = [] \<rparr>"

chapter \<open>Properties\<close>

section \<open>Unfolding the model on concrete inputs\<close>

lemmas js_defs = getProp_def hasOwnProperty_def deleteProp_def setProp_def deleteNested_def
  ownValue_def deleteKey_def arrayIndex_def digitValue_def


lemmas name_defs = getType_def getModelName_def isUpperAZ_def toUpperCaseChar_def
  toLowerCaseChar_def upperAZ_def lowerAZ_def

lemmas mapper_defs = docToResource_def getReferencePaths_def getReferencedModelName_def
  getReferencedType_def fieldsFor_def selectFields_def idOrNull_def linkageEntry_def
  presentElems_def buildLinkage_def relationshipStep_def strippedAttrs_def stateBefore_def

lemmas fixture_defs = schoolDoc_def schoolModel_def exampleInflector_def
  addS_def dropS_def

lemmas adapter_defs = adapterFind_def findExec_def populatedPathsOf_def getModel_def exec_def findQueryBuilder_def
  docsToResourceOrCollection_def includedResources_def docsFound_def refDocs_def
  validateIncludes_def checkIncludePath_def invalidIncludeDetail_def makeCollectionFor_def
  errorHandler_def toMongoCriteria_def getIdQueryType_def idIsValid_def isHexDigit_def
  adapterDelete_def deleteQueryBuilder_def adapterUpdate_def updateOne_def finalUpdateOf_def
  resourceToDocObject_def linkageIds_def

lemmas store_defs = emptyStore_def storeOf_def schoolAdapter_def findById_def exampleHydrate_def

lemma schoolModel_refs: "getReferencePaths schoolModel = [''liaisons'', ''principal'']"
  by (simp add: getReferencePaths_def schoolModel_def)

section \<open>Friendly names\<close>

text \<open>
  Claim C8. \<open>friendlyName\<close> (the adapter's \<open>toFriendlyName\<close>) maps \<open>inMLBTeam\<close> to
  \<open>In MLB Team\<close>, keeping the run of capitals \<open>MLB\<close> as one word, and \<open>created.at\<close> to
  \<open>Created At\<close>: the segments between dots get a capital first letter, are concatenated,
  and the result is cut into words joined by one space.
\<close>

theorem toFriendlyName_examples:
  "toFriendlyName ''inMLBTeam'' = ''In MLB Team''
   \<and> toFriendlyName ''created.at'' = ''Created At''
   \<and> concat (map ucFirst (splitOn CHR ''.'' ''created.at'')) = ''CreatedAt''
   \<and> wordsRe_exec_all ''InMLBTeam'' = [''In'', ''MLB'', ''Team'']"
  by (simp add: toFriendlyName_def isUpperAZ_def toUpperCaseChar_def upperAZ_def lowerAZ_def)

section \<open>Id validation\<close>

text \<open>
  Claim C2, as the code has it. An array filter with an element that is not 24
  hexadecimal digits fails with the APIError 400 "Invalid ID."; a single id that is not
  empty and is not 24 hexadecimal digits fails with the APIError 404 "No matching
  resource found." (detail "Invalid ID."). The empty string is not validated: the guard
  \<open>typeof idOrIds === "string" && idOrIds\<close> sends it to the branch of the absent filter.
\<close>

theorem getIdQueryType_invalid_id:
  "((\<exists>x \<in> set ids. \<not> idIsValid x) \<longrightarrow>
      getIdQueryType (IdArray ids) = Inl (Api (APIError 400 None ''Invalid ID.'' None)))
   \<and> (s \<noteq> [] \<and> \<not> idIsValid s \<longrightarrow>
      getIdQueryType (IdString s)
        = Inl (Api (APIError 404 None ''No matching resource found.'' (Some ''Invalid ID.''))))"
  by (auto simp: getIdQueryType_def list_all_iff)

theorem getIdQueryType_invalid_id_witness:
  "(\<exists>x \<in> set [''5a5934cfc810949cebeecc33'', ''nope'']. \<not> idIsValid x)
   \<and> getIdQueryType (IdArray [''5a5934cfc810949cebeecc33'', ''nope''])
       = Inl (Api (APIError 400 None ''Invalid ID.'' None))
   \<and> ''nope'' \<noteq> [] \<and> \<not> idIsValid ''nope''
   \<and> getIdQueryType (IdString ''nope'')
       = Inl (Api (APIError 404 None ''No matching resource found.'' (Some ''Invalid ID.'')))"
  using getIdQueryType_invalid_id [of "[''5a5934cfc810949cebeecc33'', ''nope'']" "''nope''"]
  by (simp add: idIsValid_def)

text \<open>
  The claim as stated, for every single id that fails the format, is false at the empty
  string: it fails the format and no error is raised.
\<close>

theorem getIdQueryType_empty_string_counterexample:
  "\<not> idIsValid '''' \<and> getIdQueryType (IdString '''') = Inr (Find, QueryAll)"
  by (simp add: idIsValid_def getIdQueryType_def)

section \<open>deleteNested\<close>


































section \<open>pseudoTopSort\<close>

lemma loop_visitOrder: "pseudoTopSort_loop edges roots acc = acc @ visitOrder edges roots"
  by (induction edges roots acc rule: pseudoTopSort_loop.induct) (auto split: option.splits)

lemma childrenOf_update:
  "childrenOf (AList.update r [] edges) p = (if p = r then [] else childrenOf edges p)"
  by (simp add: childrenOf_def update_conv')

lemma visitOrder_Cons:
  "visitOrder edges (r # roots) =
     r # visitOrder (if map_of edges r = None then edges else AList.update r [] edges) (roots @ childrenOf edges r)"
  by (auto simp: childrenOf_def split: option.splits)

lemma roots_visited: "set roots \<subseteq> set (visitOrder edges roots)"
  by (induction edges roots rule: visitOrder.induct) (auto split: option.splits)

lemma visited_from: "set (visitOrder edges roots) \<subseteq> set roots \<union> (\<Union>p. set (childrenOf edges p))"
proof (induction edges roots rule: visitOrder.induct)
  case (1 edges)
  then show ?case by simp
next
  case (2 edges r roots)
  show ?case
  proof (cases "map_of edges r")
    case None
    with 2 show ?thesis by auto
  next
    case (Some ch)
    have ch: "childrenOf edges r = ch" using Some by (simp add: childrenOf_def)
    have "set (visitOrder (AList.update r [] edges) (roots @ ch))
        \<subseteq> set (roots @ ch) \<union> (\<Union>p. set (childrenOf (AList.update r [] edges) p))"
      using 2(2)[OF Some] .
    also have "\<dots> \<subseteq> set roots \<union> (\<Union>p. set (childrenOf edges p))"
      using ch by (auto simp: childrenOf_update split: if_splits)
    finally show ?thesis using Some by auto
  qed
qed

lemma occursAfter_index:
  "occursAfter p c xs \<longleftrightarrow> (\<exists>i j. i < j \<and> j < length xs \<and> xs ! i = p \<and> xs ! j = c)"
proof (induction xs)
  case Nil
  then show ?case by simp
next
  case (Cons x xs)
  show ?case
  proof
    assume "occursAfter p c (x # xs)"
    then consider "x = p" "c \<in> set xs" | "occursAfter p c xs" by auto
    then show "\<exists>i j. i < j \<and> j < length (x # xs) \<and> (x # xs) ! i = p \<and> (x # xs) ! j = c"
    proof cases
      case 1
      then obtain k where "k < length xs" "xs ! k = c" by (auto simp: in_set_conv_nth)
      then have "0 < Suc k \<and> Suc k < length (x # xs) \<and> (x # xs) ! 0 = p \<and> (x # xs) ! Suc k = c"
        using 1 by simp
      then show ?thesis by blast
    next
      case 2
      then obtain i j where "i < j" "j < length xs" "xs ! i = p" "xs ! j = c"
        using Cons.IH by blast
      then have "Suc i < Suc j \<and> Suc j < length (x # xs) \<and> (x # xs) ! Suc i = p \<and> (x # xs) ! Suc j = c"
        by simp
      then show ?thesis by blast
    qed
  next
    assume "\<exists>i j. i < j \<and> j < length (x # xs) \<and> (x # xs) ! i = p \<and> (x # xs) ! j = c"
    then obtain i j where ij: "i < j" "j < length (x # xs)" "(x # xs) ! i = p" "(x # xs) ! j = c"
      by blast
    then obtain j' where j': "j = Suc j'" by (cases j) auto
    show "occursAfter p c (x # xs)"
    proof (cases i)
      case 0
      then have "x = p" using ij by simp
      moreover have "c \<in> set xs" using ij j' by (auto simp: in_set_conv_nth)
      ultimately show ?thesis by simp
    next
      case (Suc i')
      then have "i' < j' \<and> j' < length xs \<and> xs ! i' = p \<and> xs ! j' = c" using ij j' by simp
      then have "occursAfter p c xs" using Cons.IH by blast
      then show ?thesis by simp
    qed
  qed
qed

lemma child_after_parent:
  "p \<in> set (visitOrder edges roots) \<Longrightarrow> c \<in> set (childrenOf edges p)
     \<Longrightarrow> occursAfter p c (visitOrder edges roots)"
proof (induction edges roots rule: visitOrder.induct)
  case (1 edges)
  then show ?case by simp
next
  case (2 edges r roots)
  show ?case
  proof (cases "map_of edges r")
    case None
    then have "p \<noteq> r" using 2(4) by (auto simp: childrenOf_def)
    then have "p \<in> set (visitOrder edges roots)" using 2(3) None by simp
    then have "occursAfter p c (visitOrder edges roots)" using 2(1)[OF None] 2(4) by simp
    then show ?thesis using None by simp
  next
    case (Some ch)
    let ?rest = "visitOrder (AList.update r [] edges) (roots @ ch)"
    have out: "visitOrder edges (r # roots) = r # ?rest" using Some by simp
    show ?thesis
    proof (cases "p = r")
      case True
      then have "c \<in> set ch" using 2(4) Some by (simp add: childrenOf_def)
      then have "c \<in> set ?rest" using roots_visited[of "roots @ ch" "AList.update r [] edges"] by auto
      then show ?thesis using out True by simp
    next
      case False
      then have "p \<in> set ?rest" using 2(3) out by simp
      moreover have "c \<in> set (childrenOf (AList.update r [] edges) p)"
        using False 2(4) by (simp add: childrenOf_update)
      ultimately have "occursAfter p c ?rest" using 2(2)[OF Some] by simp
      then show ?thesis using out by simp
    qed
  qed
qed

lemma singleParent_step:
  assumes "singleParent edges (r # roots)"
  shows "singleParent (if map_of edges r = None then edges else AList.update r [] edges)
           (roots @ childrenOf edges r)"
proof (cases "map_of edges r")
  case None
  then have "childrenOf edges r = []" by (simp add: childrenOf_def)
  then show ?thesis using assms None by (auto simp: singleParent_def)
next
  case (Some ch)
  have ch: "childrenOf edges r = ch" using Some by (simp add: childrenOf_def)
  have d: "distinct roots" "distinct ch" using assms ch by (auto simp: singleParent_def)
  have nr: "\<And>p c. hasEdge edges p c \<Longrightarrow> c \<noteq> r \<and> c \<notin> set roots"
    using assms by (auto simp: singleParent_def)
  have one: "\<And>p q c. hasEdge edges p c \<Longrightarrow> hasEdge edges q c \<Longrightarrow> p = q"
    using assms unfolding singleParent_def by blast
  have sub: "\<And>p c. hasEdge (AList.update r [] edges) p c \<Longrightarrow> p \<noteq> r \<and> hasEdge edges p c"
    by (auto simp: hasEdge_def childrenOf_update split: if_splits)
  have "distinct (roots @ ch)"
    using d nr[of r] ch by (auto simp: hasEdge_def)
  moreover have "\<forall>p. distinct (childrenOf (AList.update r [] edges) p)"
    using assms by (auto simp: singleParent_def childrenOf_update)
  moreover have "\<forall>p c. hasEdge (AList.update r [] edges) p c \<longrightarrow> c \<notin> set (roots @ ch)"
  proof (intro allI impI)
    fix p c assume e: "hasEdge (AList.update r [] edges) p c"
    then have pr: "p \<noteq> r" and e': "hasEdge edges p c" using sub by auto
    have "c \<notin> set ch"
    proof
      assume "c \<in> set ch"
      then have "hasEdge edges r c" using ch by (simp add: hasEdge_def)
      then show False using one[OF e'] pr by blast
    qed
    then show "c \<notin> set (roots @ ch)" using nr[OF e'] by simp
  qed
  moreover have "\<forall>p q c. hasEdge (AList.update r [] edges) p c \<and> hasEdge (AList.update r [] edges) q c \<longrightarrow> p = q"
    using sub one by blast
  ultimately show ?thesis using Some ch by (simp add: singleParent_def)
qed

lemma visitOrder_distinct:
  "singleParent edges roots \<Longrightarrow> distinct (visitOrder edges roots)"
proof (induction edges roots rule: visitOrder.induct)
  case (1 edges)
  then show ?case by simp
next
  case (2 edges r roots)
  let ?edges' = "if map_of edges r = None then edges else AList.update r [] edges"
  let ?roots' = "roots @ childrenOf edges r"
  have sp': "singleParent ?edges' ?roots'" using singleParent_step[OF 2(3)] .
  have ih: "distinct (visitOrder ?edges' ?roots')"
  proof (cases "map_of edges r")
    case None
    then have "childrenOf edges r = []" by (simp add: childrenOf_def)
    then show ?thesis using 2(1)[OF None] sp' None by simp
  next
    case (Some ch)
    then have "childrenOf edges r = ch" by (simp add: childrenOf_def)
    then show ?thesis using 2(2)[OF Some] sp' Some by simp
  qed
  have nr: "\<And>p c. hasEdge edges p c \<Longrightarrow> c \<noteq> r" and dr: "r \<notin> set roots"
    using 2(3) by (auto simp: singleParent_def)
  have "r \<notin> set ?roots'"
    using dr nr[of r r] by (auto simp: hasEdge_def)
  moreover have "r \<notin> (\<Union>p. set (childrenOf ?edges' p))"
    using nr by (auto simp: hasEdge_def childrenOf_update split: if_splits)
  ultimately have "r \<notin> set (visitOrder ?edges' ?roots')"
    using visited_from[of ?edges' ?roots'] by blast
  then show ?case using ih by (simp only: visitOrder_Cons distinct.simps) simp
qed

lemma visitOrder_reachable:
  "n \<in> set (visitOrder edges roots) \<Longrightarrow> reachable edges roots n"
proof (induction edges roots rule: visitOrder.induct)
  case (1 edges)
  then show ?case by simp
next
  case (2 edges r roots)
  let ?edges' = "if map_of edges r = None then edges else AList.update r [] edges"
  let ?roots' = "roots @ childrenOf edges r"
  show ?case
  proof (cases "n = r")
    case True
    then show ?thesis by (auto simp: reachable_def)
  next
    case False
    then have "n \<in> set (visitOrder ?edges' ?roots')" using 2(3) by (simp only: visitOrder_Cons) simp
    then have "reachable ?edges' ?roots' n"
      using 2(1) 2(2) by (cases "map_of edges r") (auto simp: childrenOf_def)
    then obtain s where s: "s \<in> set ?roots'" "(s, n) \<in> {(p, c). hasEdge ?edges' p c}\<^sup>*"
      by (auto simp: reachable_def)
    have "{(p, c). hasEdge ?edges' p c} \<subseteq> {(p, c). hasEdge edges p c}"
      by (auto simp: hasEdge_def childrenOf_update split: if_splits)
    then have sn: "(s, n) \<in> {(p, c). hasEdge edges p c}\<^sup>*"
      using s(2) rtrancl_mono by blast
    show ?thesis
    proof (cases "s \<in> set roots")
      case True
      then show ?thesis using sn by (auto simp: reachable_def)
    next
      case False
      then have "hasEdge edges r s" using s(1) by (simp add: hasEdge_def)
      then have "(r, n) \<in> {(p, c). hasEdge edges p c}\<^sup>*"
        using sn by (simp add: converse_rtrancl_into_rtrancl)
      then show ?thesis by (auto simp: reachable_def)
    qed
  qed
qed

lemma occursAfter_mem: "occursAfter p c xs \<Longrightarrow> c \<in> set xs"
  by (induction xs) auto

lemma reachable_visited:
  assumes "reachable edges roots n"
  shows "n \<in> set (visitOrder edges roots)"
proof -
  from assms obtain r where r: "r \<in> set roots" and rn: "(r, n) \<in> {(p, c). hasEdge edges p c}\<^sup>*"
    by (auto simp: reachable_def)
  from rn show ?thesis
  proof (induction rule: rtrancl_induct)
    case base
    have "set roots \<subseteq> set (visitOrder edges roots)" by (rule roots_visited)
    then show ?case using r by (rule subsetD)
  next
    case (step y z)
    then have "z \<in> set (childrenOf edges y)" by (simp add: hasEdge_def)
    then have "occursAfter y z (visitOrder edges roots)" by (rule child_after_parent[OF step.IH])
    then show ?case by (rule occursAfter_mem)
  qed
qed

text \<open>
  Claim C9. On the nodes A, B, C with the edges A to B and A to C and the root A the
  result has length 3, starts with A and holds B and C after it, in the order the
  children are enumerated. In general, when no node has two incoming edges (and a root
  has none), the result lists every node reachable from the roots, and no other, exactly
  once, and for every edge from a reachable parent the child stands after the parent.
\<close>

theorem pseudoTopSort_parent_first:
  "pseudoTopSort [''A'', ''B'', ''C''] [(''A'', [''B'', ''C''])] [''A''] = [''A'', ''B'', ''C'']
   \<and> pseudoTopSort [''A'', ''B'', ''C''] [(''A'', [''C'', ''B''])] [''A''] = [''A'', ''C'', ''B'']
   \<and> (singleParent edges roots \<longrightarrow>
        distinct (pseudoTopSort nodes edges roots)
        \<and> (\<forall>n. reachable edges roots n \<longleftrightarrow> n \<in> set (pseudoTopSort nodes edges roots))
        \<and> (\<forall>p c. reachable edges roots p \<and> hasEdge edges p c \<longrightarrow>
              (\<exists>i j. i < j \<and> j < length (pseudoTopSort nodes edges roots)
                 \<and> pseudoTopSort nodes edges roots ! i = p
                 \<and> pseudoTopSort nodes edges roots ! j = c)))"
proof (intro conjI impI allI)
  have out: "pseudoTopSort nodes edges roots = visitOrder edges roots"
    by (simp add: pseudoTopSort_def loop_visitOrder)
  show "pseudoTopSort [''A'', ''B'', ''C''] [(''A'', [''B'', ''C''])] [''A''] = [''A'', ''B'', ''C'']"
    by (simp add: pseudoTopSort_def)
  show "pseudoTopSort [''A'', ''B'', ''C''] [(''A'', [''C'', ''B''])] [''A''] = [''A'', ''C'', ''B'']"
    by (simp add: pseudoTopSort_def)
  show "distinct (pseudoTopSort nodes edges roots)" if "singleParent edges roots"
    using visitOrder_distinct[OF that] out by simp
  show "reachable edges roots n \<longleftrightarrow> n \<in> set (pseudoTopSort nodes edges roots)" for n
    using reachable_visited[of edges roots n] visitOrder_reachable[of n edges roots] out by auto
  show "\<exists>i j. i < j \<and> j < length (pseudoTopSort nodes edges roots)
                 \<and> pseudoTopSort nodes edges roots ! i = p
                 \<and> pseudoTopSort nodes edges roots ! j = c"
    if "reachable edges roots p \<and> hasEdge edges p c" for p c
  proof -
    have "p \<in> set (visitOrder edges roots)" using that reachable_visited by simp
    moreover have "c \<in> set (childrenOf edges p)" using that by (simp add: hasEdge_def)
    ultimately have "occursAfter p c (visitOrder edges roots)" by (rule child_after_parent)
    then show ?thesis unfolding out occursAfter_index .
  qed
qed

theorem pseudoTopSort_parent_first_witness:
  "singleParent [(''A'', [''B'', ''C''])] [''A'']
   \<and> reachable [(''A'', [''B'', ''C''])] [''A''] ''A''
   \<and> hasEdge [(''A'', [''B'', ''C''])] ''A'' ''C''
   \<and> distinct (pseudoTopSort [''A'', ''B'', ''C''] [(''A'', [''B'', ''C''])] [''A''])
   \<and> ''C'' \<in> set (pseudoTopSort [''A'', ''B'', ''C''] [(''A'', [''B'', ''C''])] [''A''])
   \<and> (\<exists>i j. i < j \<and> j < length (pseudoTopSort [''A'', ''B'', ''C''] [(''A'', [''B'', ''C''])] [''A''])
         \<and> pseudoTopSort [''A'', ''B'', ''C''] [(''A'', [''B'', ''C''])] [''A''] ! i = ''A''
         \<and> pseudoTopSort [''A'', ''B'', ''C''] [(''A'', [''B'', ''C''])] [''A''] ! j = ''C'')"
proof -
  let ?E = "[(''A'', [''B'', ''C''])]" and ?R = "[''A'']" and ?N = "[''A'', ''B'', ''C'']"
  have sp: "singleParent ?E ?R"
    by (auto simp: singleParent_def hasEdge_def childrenOf_def)
  have ra: "reachable ?E ?R ''A''"
    by (simp add: reachable_def)
  have e: "hasEdge ?E ''A'' ''C''"
    by (simp add: hasEdge_def childrenOf_def)
  have rc: "reachable ?E ?R ''C''"
    using e by (auto simp: reachable_def)
  note th = pseudoTopSort_parent_first [of ?E ?R ?N, THEN conjunct2, THEN conjunct2, rule_format, OF sp]
  have d: "distinct (pseudoTopSort ?N ?E ?R)" using th by (rule conjunct1)
  have m: "\<forall>n. reachable ?E ?R n \<longleftrightarrow> n \<in> set (pseudoTopSort ?N ?E ?R)"
    using th by (rule conjunct2 [THEN conjunct1])
  have a: "\<forall>p c. reachable ?E ?R p \<and> hasEdge ?E p c \<longrightarrow>
              (\<exists>i j. i < j \<and> j < length (pseudoTopSort ?N ?E ?R)
                 \<and> pseudoTopSort ?N ?E ?R ! i = p \<and> pseudoTopSort ?N ?E ?R ! j = c)"
    using th by (rule conjunct2 [THEN conjunct2])
  have c: "''C'' \<in> set (pseudoTopSort ?N ?E ?R)" using m [rule_format, of "''C''"] rc by simp
  have ex: "\<exists>i j. i < j \<and> j < length (pseudoTopSort ?N ?E ?R)
                 \<and> pseudoTopSort ?N ?E ?R ! i = ''A'' \<and> pseudoTopSort ?N ?E ?R ! j = ''C''"
    using a [rule_format, OF conjI [OF ra e]] .
  show ?thesis using sp ra e d c ex by (intro conjI)
qed

section \<open>docToResource: the shape of a Linkage\<close>

lemma docToResource_alt:
  "docToResource pluralize doc pluralizer fieldSets =
     (case foldFailing (relationshipStep (docModel doc) (plural pluralize)
                          (fieldsFor fieldSets (getType (modelName (docModel doc)) pluralizer)))
             (getReferencePaths (docModel doc)) (strippedAttrs doc pluralizer fieldSets, []) of
        Inl e \<Rightarrow> Inl e
      | Inr (attrs', relationships) \<Rightarrow>
          Inr (Resource (getType (modelName (docModel doc)) pluralizer) (docId doc) attrs' relationships))"
  by (simp add: docToResource_def strippedAttrs_def Let_def)

lemma foldFailing_append:
  "foldFailing f (xs @ ys) s =
     (case foldFailing f xs s of Inl e \<Rightarrow> Inl e | Inr s' \<Rightarrow> foldFailing f ys s')"
  by (induction xs arbitrary: s) (auto split: sum.splits)

lemma relationshipStep_other:
  "relationshipStep m pl sel q (a, rels) = Inr (a', rels') \<Longrightarrow> q \<noteq> p \<Longrightarrow>
     map_of rels' p = map_of rels p"
  by (auto simp: relationshipStep_def Let_def update_conv' split: if_splits sum.splits option.splits)

lemma foldFailing_other:
  "foldFailing (relationshipStep m pl sel) qs s = Inr s' \<Longrightarrow> p \<notin> set qs \<Longrightarrow>
     map_of (snd s') p = map_of (snd s) p"
proof (induction qs arbitrary: s)
  case Nil
  then show ?case by simp
next
  case (Cons q qs)
  then obtain s1 where s1: "relationshipStep m pl sel q s = Inr s1"
     "foldFailing (relationshipStep m pl sel) qs s1 = Inr s'"
    by (auto split: sum.splits)
  have "map_of (snd s1) p = map_of (snd s) p"
    using relationshipStep_other [of m pl sel q "fst s" "snd s" "fst s1" "snd s1" p] s1(1) Cons.prems(2)
    by auto
  then show ?case using Cons.IH [OF s1(2)] Cons.prems(2) by simp
qed

lemma relationshipStep_result:
  "relationshipStep m pl sel p (a, rels) = Inr (a', rels') \<Longrightarrow>
   (case sel of None \<Rightarrow> True | Some fs \<Rightarrow> p \<in> set fs) \<Longrightarrow>
     \<exists>raw t l. reduceGetProp (splitOn CHR ''.'' p) a = Inr raw
        \<and> getReferencedType m p pl = Inr t
        \<and> buildLinkage t raw = Inr l
        \<and> map_of rels' p = Some (Relationship l)"
  by (auto simp: relationshipStep_def Let_def update_conv' split: if_splits sum.splits option.splits)

lemma buildLinkage_shape:
  "buildLinkage t raw = Inr l \<Longrightarrow>
     (valueIsList l \<longleftrightarrow> isArray raw)
     \<and> (\<not> truthy raw \<longrightarrow> l = LinkageOne None)
     \<and> (raw = JArr [] \<longrightarrow> l = LinkageMany [])"
  by (cases raw)
     (auto simp: buildLinkage_def linkageEntry_def idOrNull_def presentElems_def
           split: sum.splits option.splits if_splits)

text \<open>
  Claim C1, as the code has it. \<open>docToResource\<close> never consults the cardinality the
  schema declares: for a relationship path it maps (one the field selection does not leave
  out), the value of the Linkage is a list exactly when the value read at the path
  (\<open>jsonValAtPath\<close>, read from the attributes as they are when the loop reaches the path)
  is an array. A value that is not an array gives a Linkage that is not a list, and
  \<open>Linkage(null)\<close> when the value is absent, \<open>null\<close> or otherwise falsy; the empty array
  gives \<open>Linkage([])\<close>. The reference paths of a schema are distinct.
\<close>

theorem docToResource_linkage_shape:
  assumes ok: "docToResource pluralize doc pluralizer fieldSets = Inr r"
    and dist: "distinct (getReferencePaths (docModel doc))"
    and p: "path \<in> set (getReferencePaths (docModel doc))"
    and sel: "case fieldsFor fieldSets (getType (modelName (docModel doc)) pluralizer) of
                None \<Rightarrow> True | Some fs \<Rightarrow> path \<in> set fs"
  shows "\<exists>attrs rels jsonValAtPath l.
           stateBefore pluralize doc pluralizer fieldSets path = Inr (attrs, rels)
         \<and> reduceGetProp (splitOn CHR ''.'' path) attrs = Inr jsonValAtPath
         \<and> map_of (resourceRelationships r) path = Some (Relationship l)
         \<and> (valueIsList l \<longleftrightarrow> isArray jsonValAtPath)
         \<and> (\<not> truthy jsonValAtPath \<longrightarrow> l = LinkageOne None)
         \<and> (jsonValAtPath = JArr [] \<longrightarrow> l = LinkageMany [])"
proof -
  let ?step = "relationshipStep (docModel doc) (plural pluralize)
                 (fieldsFor fieldSets (getType (modelName (docModel doc)) pluralizer))"
  let ?paths = "getReferencePaths (docModel doc)"
  let ?xs = "takeWhile (\<lambda>q. q \<noteq> path) ?paths" and ?ys = "tl (dropWhile (\<lambda>q. q \<noteq> path) ?paths)"
  have dw: "dropWhile (\<lambda>q. q \<noteq> path) ?paths = path # ?ys"
    using p by (metis (mono_tags, lifting) dropWhile_eq_Nil_conv hd_dropWhile list.collapse)
  have split: "?paths = ?xs @ path # ?ys"
    using dw takeWhile_dropWhile_id [of "\<lambda>q. q \<noteq> path" ?paths] by simp
  have notin: "path \<notin> set ?ys"
    using dist split by (metis distinct.simps(2) distinct_append)
  from ok obtain final where fin: "foldFailing ?step ?paths (strippedAttrs doc pluralizer fieldSets, []) = Inr final"
      and r: "r = Resource (getType (modelName (docModel doc)) pluralizer) (docId doc) (fst final) (snd final)"
    by (auto simp: docToResource_alt split: sum.splits)
  from fin obtain s1 s2 where
    s1: "foldFailing ?step ?xs (strippedAttrs doc pluralizer fieldSets, []) = Inr s1"
    and s2: "?step path s1 = Inr s2"
    and s3: "foldFailing ?step ?ys s2 = Inr final"
    by (subst (asm) split) (auto simp: foldFailing_append split: sum.splits)
  have s2': "?step path (fst s1, snd s1) = Inr (fst s2, snd s2)" using s2 by simp
  from relationshipStep_result [OF s2' sel]
  obtain raw t l where
    st: "reduceGetProp (splitOn CHR ''.'' path) (fst s1) = Inr raw"
        "buildLinkage t raw = Inr l" "map_of (snd s2) path = Some (Relationship l)"
    by blast
  have rel: "map_of (resourceRelationships r) path = Some (Relationship l)"
    using foldFailing_other [OF s3 notin] st(3) r by simp
  have before: "stateBefore pluralize doc pluralizer fieldSets path = Inr (fst s1, snd s1)"
    using s1 by (simp add: stateBefore_def)
  show ?thesis
    apply (rule exI [of _ "fst s1"])
    apply (rule exI [of _ "snd s1"])
    apply (rule exI [of _ raw])
    apply (rule exI [of _ l])
    using before st(1) rel buildLinkage_shape [OF st(2)] apply simp
    done
qed

text \<open>
  The theorem at a School whose \<open>principal\<close> is \<open>null\<close> and whose \<open>liaisons\<close> hold one id.
\<close>

theorem docToResource_linkage_shape_witness:
  "docToResource exampleInflector
     (schoolDoc JNull [(''liaisons'', JArr [Some (JObjectId ''5a5934cfc810949cebeecc35'')])])
     addS None
   = Inr (Resource ''schools'' (JStr ''5a5934cfc810949cebeecc33'')
            (JObj [(''name'', JStr ''City College''), (''isCollege'', JBool False)])
            [(''liaisons'', Relationship (LinkageMany
                [Some (ResourceIdentifier ''persons'' ''5a5934cfc810949cebeecc35'')])),
             (''principal'', Relationship (LinkageOne None))])
   \<and> distinct (getReferencePaths schoolModel)
   \<and> ''principal'' \<in> set (getReferencePaths schoolModel)
   \<and> (\<exists>attrs rels jsonValAtPath l.
         stateBefore exampleInflector
           (schoolDoc JNull [(''liaisons'', JArr [Some (JObjectId ''5a5934cfc810949cebeecc35'')])])
           addS None ''principal'' = Inr (attrs, rels)
       \<and> reduceGetProp (splitOn CHR ''.'' ''principal'') attrs = Inr jsonValAtPath
       \<and> map_of [(''liaisons'', Relationship (LinkageMany
                     [Some (ResourceIdentifier ''persons'' ''5a5934cfc810949cebeecc35'')])),
                  (''principal'', Relationship (LinkageOne None))] ''principal''
            = Some (Relationship l)
       \<and> (valueIsList l \<longleftrightarrow> isArray jsonValAtPath)
       \<and> \<not> truthy jsonValAtPath \<and> l = LinkageOne None)"
proof -
  let ?d = "schoolDoc JNull [(''liaisons'', JArr [Some (JObjectId ''5a5934cfc810949cebeecc35'')])]"
  have ok: "docToResource exampleInflector ?d addS None
   = Inr (Resource ''schools'' (JStr ''5a5934cfc810949cebeecc33'')
            (JObj [(''name'', JStr ''City College''), (''isCollege'', JBool False)])
            [(''liaisons'', Relationship (LinkageMany
                [Some (ResourceIdentifier ''persons'' ''5a5934cfc810949cebeecc35'')])),
             (''principal'', Relationship (LinkageOne None))])"
    by (simp add: mapper_defs js_defs name_defs fixture_defs)
  have m: "docModel ?d = schoolModel" by (simp add: schoolDoc_def)
  have dist: "distinct (getReferencePaths (docModel ?d))"
    by (simp add: m getReferencePaths_def schoolModel_def)
  have p: "''principal'' \<in> set (getReferencePaths (docModel ?d))"
    by (simp add: m getReferencePaths_def schoolModel_def)
  have sel: "case fieldsFor None (getType (modelName (docModel ?d)) addS) of
                None \<Rightarrow> True | Some fs \<Rightarrow> ''principal'' \<in> set fs"
    by (simp add: fieldsFor_def)
  from docToResource_linkage_shape [OF ok dist p sel]
  obtain attrs rels v l where
    w: "stateBefore exampleInflector ?d addS None ''principal'' = Inr (attrs, rels)"
       "reduceGetProp (splitOn CHR ''.'' ''principal'') attrs = Inr v"
       "map_of (resourceRelationships (Resource ''schools'' (JStr ''5a5934cfc810949cebeecc33'')
            (JObj [(''name'', JStr ''City College''), (''isCollege'', JBool False)])
            [(''liaisons'', Relationship (LinkageMany
                [Some (ResourceIdentifier ''persons'' ''5a5934cfc810949cebeecc35'')])),
             (''principal'', Relationship (LinkageOne None))])) ''principal'' = Some (Relationship l)"
       "valueIsList l \<longleftrightarrow> isArray v" "\<not> truthy v \<longrightarrow> l = LinkageOne None"
    by blast
  have l: "l = LinkageOne None" using w(3) by simp
  have "\<not> isArray v" using w(4) l by simp
  have sb: "stateBefore exampleInflector ?d addS None ''principal''
      = Inr (JObj [(''name'', JStr ''City College''), (''isCollege'', JBool False), (''principal'', JNull)],
             [(''liaisons'', Relationship (LinkageMany
                [Some (ResourceIdentifier ''persons'' ''5a5934cfc810949cebeecc35'')]))])"
    by (simp add: mapper_defs js_defs name_defs fixture_defs)
  have "attrs = JObj [(''name'', JStr ''City College''), (''isCollege'', JBool False), (''principal'', JNull)]"
    using w(1) sb by simp
  then have v: "v = JNull" using w(2) by (simp add: getProp_def)
  show ?thesis
    apply (intro conjI)
       apply (rule ok)
      apply (rule dist [unfolded m])
     apply (rule p [unfolded m])
    apply (rule exI [of _ attrs])
    apply (rule exI [of _ rels])
    apply (rule exI [of _ v])
    apply (rule exI [of _ l])
    using w v l apply simp
    done
qed

text \<open>
  The claim as stated is false where the serialized document has no value at a path the
  schema declares to-many: \<open>liaisons\<close> is declared as an array of references, the School
  below has no such property, and its Linkage is \<open>Linkage(null)\<close>, not a list.
\<close>

theorem docToResource_to_many_absent_counterexample:
  "(\<exists>p \<in> set (schemaPaths schoolModel). pathName p = ''liaisons'' \<and> holdsArray p \<and> refModel p = Some ''Person'')
   \<and> map_of (toJSON (schoolDoc (JObjectId ''5a5934cfc810949cebeecc34'') [])) ''liaisons'' = None
   \<and> docToResource exampleInflector (schoolDoc (JObjectId ''5a5934cfc810949cebeecc34'') []) addS None
      = Inr (Resource ''schools'' (JStr ''5a5934cfc810949cebeecc33'')
               (JObj [(''name'', JStr ''City College''), (''isCollege'', JBool False)])
               [(''liaisons'', Relationship (LinkageOne None)),
                (''principal'', Relationship (LinkageOne
                   (Some (ResourceIdentifier ''persons'' ''5a5934cfc810949cebeecc34''))))])
   \<and> \<not> valueIsList (LinkageOne None)"
  by (simp add: mapper_defs js_defs name_defs fixture_defs)

section \<open>docToResource: field selection\<close>

text \<open>
  Claim C7 at a School with \<open>isCollege: false\<close> and the selection \<open>{schools: ["name",
  "isCollege"]}\<close>: the document has the attribute and the selection names it, and the
  Resource has no \<open>isCollege\<close>. The test \<open>if(attrs[field])\<close> keeps a selected attribute
  only when its value is truthy.
\<close>

theorem docToResource_selected_false_attribute:
  "map_of (toJSON (schoolDoc JNull [])) ''isCollege'' = Some (JBool False)
   \<and> docToResource exampleInflector (schoolDoc JNull []) addS
        (Some [''schools'' \<mapsto> [''name'', ''isCollege'']])
      = Inr (Resource ''schools'' (JStr ''5a5934cfc810949cebeecc33'')
               (JObj [(''name'', JStr ''City College'')]) [])"
  by (simp add: mapper_defs js_defs name_defs fixture_defs)

section \<open>Find: include paths\<close>

lemma splitOn_nonempty: "splitOn d s \<noteq> []"
  by (induction s) (auto split: list.splits)

lemma splitOn_no_separator: "d \<notin> set s \<Longrightarrow> splitOn d s = [s]"
  by (induction s) auto

lemma splitOn_separator: "d \<in> set s \<Longrightarrow> length (splitOn d s) > 1"
proof (induction s)
  case Nil
  then show ?case by simp
next
  case (Cons c cs)
  show ?case
  proof (cases "c = d")
    case True
    then show ?thesis using splitOn_nonempty [of d cs] by (cases "splitOn d cs") auto
  next
    case False
    then have "d \<in> set cs" using Cons.prems by simp
    then have "length (splitOn d cs) > 1" using Cons.IH by simp
    then show ?thesis using False by (cases "splitOn d cs") auto
  qed
qed

lemma checkIncludePath_ok_iff:
  "checkIncludePath type refPaths (splitOn CHR ''.'' p) = Inr q
     \<longleftrightarrow> q = p \<and> p \<in> set refPaths \<and> CHR ''.'' \<notin> set p"
proof (cases "CHR ''.'' \<in> set p")
  case True
  then have "length (splitOn CHR ''.'' p) > 1" by (rule splitOn_separator)
  then show ?thesis using True by (auto simp: checkIncludePath_def)
next
  case False
  then have "splitOn CHR ''.'' p = [p]" by (rule splitOn_no_separator)
  then show ?thesis using False by (auto simp: checkIncludePath_def)
qed

lemma mapFailing_ok_iff:
  "mapFailing f xs = Inr ys \<longleftrightarrow> length ys = length xs \<and> (\<forall>i < length xs. f (xs ! i) = Inr (ys ! i))"
proof (induction xs arbitrary: ys)
  case Nil
  then show ?case by auto
next
  case (Cons x xs)
  show ?case
  proof (cases ys)
    case Nil
    then show ?thesis by (auto split: sum.splits)
  next
    case (Cons y ys')
    then show ?thesis using Cons.IH [of ys']
      by (auto simp: less_Suc_eq_0_disj split: sum.splits)
  qed
qed

lemma validateIncludes_ok_iff:
  "validateIncludes type refPaths includePaths = Inr populatedPaths
     \<longleftrightarrow> populatedPaths = includePaths
         \<and> (\<forall>p \<in> set includePaths. p \<in> set refPaths \<and> CHR ''.'' \<notin> set p)"
proof
  assume "validateIncludes type refPaths includePaths = Inr populatedPaths"
  then have l: "length populatedPaths = length includePaths"
    and e: "\<And>i. i < length includePaths \<Longrightarrow>
          checkIncludePath type refPaths (splitOn CHR ''.'' (includePaths ! i)) = Inr (populatedPaths ! i)"
    by (auto simp: validateIncludes_def mapFailing_ok_iff)
  have each: "\<And>i. i < length includePaths \<Longrightarrow> populatedPaths ! i = includePaths ! i
          \<and> includePaths ! i \<in> set refPaths \<and> CHR ''.'' \<notin> set (includePaths ! i)"
    using e checkIncludePath_ok_iff by blast
  have "populatedPaths = includePaths"
    using l each by (intro nth_equalityI) simp_all
  moreover have "\<forall>p \<in> set includePaths. p \<in> set refPaths \<and> CHR ''.'' \<notin> set p"
  proof
    fix p assume "p \<in> set includePaths"
    then obtain i where "i < length includePaths" "includePaths ! i = p"
      by (auto simp: in_set_conv_nth)
    then show "p \<in> set refPaths \<and> CHR ''.'' \<notin> set p" using each by blast
  qed
  ultimately show "populatedPaths = includePaths
         \<and> (\<forall>p \<in> set includePaths. p \<in> set refPaths \<and> CHR ''.'' \<notin> set p)"
    by simp
next
  assume a: "populatedPaths = includePaths
         \<and> (\<forall>p \<in> set includePaths. p \<in> set refPaths \<and> CHR ''.'' \<notin> set p)"
  then have "\<And>i. i < length includePaths \<Longrightarrow>
          checkIncludePath type refPaths (splitOn CHR ''.'' (includePaths ! i)) = Inr (includePaths ! i)"
    using checkIncludePath_ok_iff by simp
  then show "validateIncludes type refPaths includePaths = Inr populatedPaths"
    using a by (simp add: validateIncludes_def mapFailing_ok_iff)
qed

lemma mapFailing_first_failure:
  "(\<forall>x \<in> set good. \<exists>y. f x = Inr y) \<Longrightarrow> f bad = Inl e \<Longrightarrow>
     mapFailing f (good @ bad # rest) = Inl e"
  by (induction good) (auto split: sum.splits)

lemma validateIncludes_first_failure:
  assumes "\<forall>p \<in> set good. p \<in> set refPaths \<and> CHR ''.'' \<notin> set p"
    and "checkIncludePath type refPaths (splitOn CHR ''.'' bad) = Inl e"
  shows "validateIncludes type refPaths (good @ bad # rest) = Inl e"
proof -
  have "\<forall>x \<in> set (map (splitOn CHR ''.'') good). \<exists>y. checkIncludePath type refPaths x = Inr y"
    using assms(1) checkIncludePath_ok_iff by auto
  then show ?thesis
    using mapFailing_first_failure [of "map (splitOn CHR ''.'') good" "checkIncludePath type refPaths"
        "splitOn CHR ''.'' bad" e "map (splitOn CHR ''.'') rest"] assms(2)
    by (simp add: validateIncludes_def)
qed

text \<open>
  Claim C6, as the code has it. The check of one include path: a path whose first segment
  (the relationship name) is not among the declared reference paths of the type throws
  the APIError 400 "Invalid include path.", whatever the number of its segments; the
  APIError 501 "Multi-level include paths aren't yet supported." is thrown for a path of
  more than one segment whose first segment is declared. The paths are checked in order
  and the first that fails decides; the validation passes exactly when every path is a
  declared reference path without a dot, and then the populated paths are the include
  paths. \<open>find\<close>, once the model is found and the id filter has passed, throws what the
  validation throws; when the validation passes, its result is made of the documents the
  store answers to the query that populates exactly the include paths: the included
  resources read at these paths, the primary resources, and the size of the collection.
\<close>

theorem include_path_validation:
  "(hd pathParts \<notin> set refPaths \<longrightarrow>
      checkIncludePath type refPaths pathParts
        = Inl (Api (APIError 400 None ''Invalid include path.''
                      (Some (invalidIncludeDetail type (hd pathParts))))))
   \<and> (hd pathParts \<in> set refPaths \<and> length pathParts > 1 \<longrightarrow>
      checkIncludePath type refPaths pathParts
        = Inl (Api (APIError 501 None ''Multi-level include paths aren't yet supported.'' None)))
   \<and> ((\<forall>p \<in> set good. p \<in> set refPaths \<and> CHR ''.'' \<notin> set p)
        \<and> checkIncludePath type refPaths (splitOn CHR ''.'' bad) = Inl e \<longrightarrow>
      validateIncludes type refPaths (good @ bad # rest) = Inl e)
   \<and> (validateIncludes type refPaths includePaths = Inr populatedPaths
        \<longleftrightarrow> populatedPaths = includePaths
            \<and> (\<forall>p \<in> set includePaths. p \<in> set refPaths \<and> CHR ''.'' \<notin> set p))
   \<and> (getModel a (getModelName (fqUsing query) (singular pluralize)) = Inr (m, st)
        \<and> getIdQueryType (fqIdOrIds query) = Inr (mode, idQuery)
        \<and> fqPopulates query = Some paths \<longrightarrow>
      adapterFind pluralize a query =
        (case validateIncludes (fqUsing query) (getReferencePaths m) paths of
           Inl err \<Rightarrow> Inl err
         | Inr populated \<Rightarrow>
             (case includedResources pluralize (plural (adapterInflector a)) (fqSelect query) paths
                     (exec st (findQueryBuilder query mode idQuery paths)) of
                Inl err \<Rightarrow> Inl err
              | Inr included \<Rightarrow>
                  (case docsToResourceOrCollection pluralize
                          (exec st (findQueryBuilder query mode idQuery paths))
                          (makeCollectionFor (fqIdOrIds query))
                          (plural (adapterInflector a)) (fqSelect query) of
                     Inl err \<Rightarrow> Inl err
                   | Inr primary \<Rightarrow>
                       Inr (primary, Some included,
                            if \<not> idsIsString (fqIdOrIds query)
                               \<and> (fqOffset query \<noteq> None \<or> fqLimit query \<noteq> None)
                            then Some (countDocs st (toMongoCriteria (fqFilters query)))
                            else None))))
      \<and> qbPopulate (findQueryBuilder query mode idQuery paths) = paths)"
proof (intro conjI impI)
  show "checkIncludePath type refPaths pathParts
        = Inl (Api (APIError 400 None ''Invalid include path.''
                      (Some (invalidIncludeDetail type (hd pathParts)))))"
    if "hd pathParts \<notin> set refPaths"
    using that by (simp add: checkIncludePath_def)
  show "checkIncludePath type refPaths pathParts
        = Inl (Api (APIError 501 None ''Multi-level include paths aren't yet supported.'' None))"
    if "hd pathParts \<in> set refPaths \<and> length pathParts > 1"
    using that by (simp add: checkIncludePath_def)
  show "validateIncludes type refPaths (good @ bad # rest) = Inl e"
    if "(\<forall>p \<in> set good. p \<in> set refPaths \<and> CHR ''.'' \<notin> set p)
        \<and> checkIncludePath type refPaths (splitOn CHR ''.'' bad) = Inl e"
    using that validateIncludes_first_failure by blast
  show "validateIncludes type refPaths includePaths = Inr populatedPaths
        \<longleftrightarrow> populatedPaths = includePaths
            \<and> (\<forall>p \<in> set includePaths. p \<in> set refPaths \<and> CHR ''.'' \<notin> set p)"
    by (rule validateIncludes_ok_iff)
  show "qbPopulate (findQueryBuilder query mode idQuery paths) = paths"
    by (simp add: findQueryBuilder_def)
  show "adapterFind pluralize a query =
        (case validateIncludes (fqUsing query) (getReferencePaths m) paths of
           Inl err \<Rightarrow> Inl err
         | Inr populated \<Rightarrow>
             (case includedResources pluralize (plural (adapterInflector a)) (fqSelect query) paths
                     (exec st (findQueryBuilder query mode idQuery paths)) of
                Inl err \<Rightarrow> Inl err
              | Inr included \<Rightarrow>
                  (case docsToResourceOrCollection pluralize
                          (exec st (findQueryBuilder query mode idQuery paths))
                          (makeCollectionFor (fqIdOrIds query))
                          (plural (adapterInflector a)) (fqSelect query) of
                     Inl err \<Rightarrow> Inl err
                   | Inr primary \<Rightarrow>
                       Inr (primary, Some included,
                            if \<not> idsIsString (fqIdOrIds query)
                               \<and> (fqOffset query \<noteq> None \<or> fqLimit query \<noteq> None)
                            then Some (countDocs st (toMongoCriteria (fqFilters query)))
                            else None))))"
    if "getModel a (getModelName (fqUsing query) (singular pluralize)) = Inr (m, st)
        \<and> getIdQueryType (fqIdOrIds query) = Inr (mode, idQuery)
        \<and> fqPopulates query = Some paths"
  proof (cases "validateIncludes (fqUsing query) (getReferencePaths m) paths")
    case (Inl err)
    then show ?thesis using that by (simp add: adapterFind_def populatedPathsOf_def)
  next
    case (Inr populated)
    then have "populated = paths"
      using validateIncludes_ok_iff [of "fqUsing query" "getReferencePaths m" paths populated]
      by simp
    then have "adapterFind pluralize a query = findExec pluralize a query st mode idQuery (Some paths)"
      using that Inr by (simp add: adapterFind_def populatedPathsOf_def)
    then show ?thesis using Inr
      by (simp add: findExec_def Let_def errorHandler_def split: sum.splits)
  qed
qed

text \<open>
  The theorem at the School type, whose reference paths are \<open>liaisons\<close> and \<open>principal\<close>,
  and at a store that answers with one School the queries that populate exactly
  \<open>liaisons\<close> and \<open>principal\<close>, and with nothing every other query.
\<close>

theorem include_path_validation_witness:
  "hd (splitOn CHR ''.'' ''mascot'') \<notin> set (getReferencePaths schoolModel)
   \<and> checkIncludePath ''schools'' (getReferencePaths schoolModel) (splitOn CHR ''.'' ''mascot'')
       = Inl (Api (APIError 400 None ''Invalid include path.''
                     (Some (invalidIncludeDetail ''schools'' ''mascot''))))
   \<and> hd (splitOn CHR ''.'' ''principal.name'') \<in> set (getReferencePaths schoolModel)
   \<and> length (splitOn CHR ''.'' ''principal.name'') > 1
   \<and> checkIncludePath ''schools'' (getReferencePaths schoolModel) (splitOn CHR ''.'' ''principal.name'')
       = Inl (Api (APIError 501 None ''Multi-level include paths aren't yet supported.'' None))
   \<and> validateIncludes ''schools'' (getReferencePaths schoolModel) [''liaisons'', ''principal.name'', ''mascot'']
       = Inl (Api (APIError 501 None ''Multi-level include paths aren't yet supported.'' None))
   \<and> validateIncludes ''schools'' (getReferencePaths schoolModel) [''liaisons'', ''principal'']
       = Inr [''liaisons'', ''principal'']
   \<and> adapterFind exampleInflector
        (schoolAdapter (storePopulating [''liaisons'', ''principal''] (schoolDoc JNull [])))
        (findById IdUndefined (Some [''liaisons'', ''mascot'']))
       = Inl (Api (APIError 400 None ''Invalid include path.''
                     (Some (invalidIncludeDetail ''schools'' ''mascot''))))
   \<and> adapterFind exampleInflector
        (schoolAdapter (storePopulating [''liaisons'', ''principal''] (schoolDoc JNull [])))
        (findById IdUndefined (Some [''liaisons'', ''principal'']))
       = Inr (Collection
                [Resource ''schools'' (JStr ''5a5934cfc810949cebeecc33'')
                   (JObj [(''name'', JStr ''City College''), (''isCollege'', JBool False)])
                   [(''liaisons'', Relationship (LinkageOne None)),
                    (''principal'', Relationship (LinkageOne None))]],
              Some [], None)
   \<and> adapterFind exampleInflector
        (schoolAdapter (storePopulating [''liaisons'', ''principal''] (schoolDoc JNull [])))
        (findById IdUndefined (Some [''principal'']))
       = Inr (Collection [], Some [], None)"
proof -
  let ?refs = "getReferencePaths schoolModel"
  let ?st = "storePopulating [''liaisons'', ''principal''] (schoolDoc JNull [])"
  have refs: "?refs = [''liaisons'', ''principal'']" by (rule schoolModel_refs)
  have h1: "hd (splitOn CHR ''.'' ''mascot'') \<notin> set ?refs" by (simp add: refs)
  have h2: "hd (splitOn CHR ''.'' ''principal.name'') \<in> set ?refs
              \<and> length (splitOn CHR ''.'' ''principal.name'') > 1" by (simp add: refs)
  note c400 = include_path_validation [of "splitOn CHR ''.'' ''mascot''" ?refs "''schools''",
      THEN conjunct1, rule_format, OF h1]
  note c501 = include_path_validation [of "splitOn CHR ''.'' ''principal.name''" ?refs "''schools''",
      THEN conjunct2, THEN conjunct1, rule_format, OF h2]
  have good: "\<forall>p \<in> set [''liaisons'']. p \<in> set ?refs \<and> CHR ''.'' \<notin> set p" by (simp add: refs)
  note first = include_path_validation [of _ ?refs "''schools''" "[''liaisons'']" "''principal.name''" _ "[''mascot'']",
      THEN conjunct2, THEN conjunct2, THEN conjunct1, rule_format, OF conjI [OF good c501]]
  have ok: "[''liaisons'', ''principal''] = [''liaisons'', ''principal'']
       \<and> (\<forall>p \<in> set [''liaisons'', ''principal'']. p \<in> set ?refs \<and> CHR ''.'' \<notin> set p)"
    by (simp add: refs)
  note pass = include_path_validation [of _ ?refs "''schools''" _ _ _ _ "[''liaisons'', ''principal'']"
      "[''liaisons'', ''principal'']",
      THEN conjunct2, THEN conjunct2, THEN conjunct2, THEN conjunct1, THEN iffD2, OF ok]
  have ok1: "[''principal''] = [''principal'']
       \<and> (\<forall>p \<in> set [''principal'']. p \<in> set ?refs \<and> CHR ''.'' \<notin> set p)"
    by (simp add: refs)
  note pass1 = include_path_validation [of _ ?refs "''schools''" _ _ _ _ "[''principal'']"
      "[''principal'']",
      THEN conjunct2, THEN conjunct2, THEN conjunct2, THEN conjunct1, THEN iffD2, OF ok1]
  have m: "\<And>paths. getModel (schoolAdapter ?st)
             (getModelName (fqUsing (findById IdUndefined (Some paths))) (singular exampleInflector))
               = Inr (schoolModel, ?st)
        \<and> getIdQueryType (fqIdOrIds (findById IdUndefined (Some paths))) = Inr (Find, QueryAll)
        \<and> fqPopulates (findById IdUndefined (Some paths)) = Some paths"
    by (simp add: getModel_def schoolAdapter_def findById_def name_defs exampleInflector_def
          dropS_def getIdQueryType_def)
  have bad: "validateIncludes ''schools'' ?refs [''liaisons'', ''mascot'']
       = Inl (Api (APIError 400 None ''Invalid include path.''
                     (Some (invalidIncludeDetail ''schools'' ''mascot''))))"
    using include_path_validation [of _ ?refs "''schools''" "[''liaisons'']" "''mascot''" _ "[]",
      THEN conjunct2, THEN conjunct2, THEN conjunct1, rule_format, OF conjI [OF good]] c400
    by simp
  have f1: "adapterFind exampleInflector (schoolAdapter ?st)
        (findById IdUndefined (Some [''liaisons'', ''mascot'']))
       = Inl (Api (APIError 400 None ''Invalid include path.''
                     (Some (invalidIncludeDetail ''schools'' ''mascot''))))"
    using include_path_validation [THEN conjunct2, THEN conjunct2, THEN conjunct2, THEN conjunct2,
      rule_format, OF m, THEN conjunct1, of "[''liaisons'', ''mascot'']"] bad
    by (simp add: findById_def)
  have f2: "adapterFind exampleInflector (schoolAdapter ?st)
        (findById IdUndefined (Some [''liaisons'', ''principal'']))
       = Inr (Collection
                [Resource ''schools'' (JStr ''5a5934cfc810949cebeecc33'')
                   (JObj [(''name'', JStr ''City College''), (''isCollege'', JBool False)])
                   [(''liaisons'', Relationship (LinkageOne None)),
                    (''principal'', Relationship (LinkageOne None))]],
              Some [], None)"
    using include_path_validation [THEN conjunct2, THEN conjunct2, THEN conjunct2, THEN conjunct2,
      rule_format, OF m, THEN conjunct1, of "[''liaisons'', ''principal'']"] pass
    by (simp add: findById_def exec_def findQueryBuilder_def storePopulating_def
          includedResources_def docsFound_def refDocs_def presentElems_def
          docsToResourceOrCollection_def makeCollectionFor_def schoolAdapter_def
          exampleInflector_def name_defs mapper_defs js_defs fixture_defs)
  have f3: "adapterFind exampleInflector (schoolAdapter ?st)
        (findById IdUndefined (Some [''principal'']))
       = Inr (Collection [], Some [], None)"
    using include_path_validation [THEN conjunct2, THEN conjunct2, THEN conjunct2, THEN conjunct2,
      rule_format, OF m, THEN conjunct1, of "[''principal'']"] pass1
    by (simp add: findById_def exec_def findQueryBuilder_def storePopulating_def
          includedResources_def docsFound_def presentElems_def
          docsToResourceOrCollection_def makeCollectionFor_def schoolAdapter_def)
  show ?thesis
    using h1 h2 c400 c501 first pass f1 f2 f3 by simp
qed

text \<open>
  The claim as stated, a 501 for every path of more than one segment and a 400 for every
  path with an undeclared relationship name, is false at both: \<open>"mascot.name"\<close> has two
  segments and \<open>find\<close> throws the 400, the first check of the loop; and among the paths
  \<open>"principal.name"\<close>, \<open>"mascot"\<close> the second names no relationship and \<open>find\<close> throws the
  501 of the first.
\<close>

theorem include_path_multi_segment_counterexample:
  "length (splitOn CHR ''.'' ''mascot.name'') > 1
   \<and> checkIncludePath ''schools'' (getReferencePaths schoolModel) (splitOn CHR ''.'' ''mascot.name'')
       = Inl (Api (APIError 400 None ''Invalid include path.''
                     (Some (invalidIncludeDetail ''schools'' ''mascot''))))
   \<and> adapterFind exampleInflector (schoolAdapter emptyStore)
        (findById IdUndefined (Some [''mascot.name'']))
       = Inl (Api (APIError 400 None ''Invalid include path.''
                     (Some (invalidIncludeDetail ''schools'' ''mascot''))))
   \<and> ''mascot'' \<notin> set (getReferencePaths schoolModel)
   \<and> adapterFind exampleInflector (schoolAdapter emptyStore)
        (findById IdUndefined (Some [''principal.name'', ''mascot'']))
       = Inl (Api (APIError 501 None ''Multi-level include paths aren't yet supported.'' None))"
  by (simp add: schoolModel_refs adapterFind_def populatedPathsOf_def validateIncludes_def
        checkIncludePath_def getModel_def schoolAdapter_def findById_def emptyStore_def
        name_defs exampleInflector_def dropS_def getIdQueryType_def)

section \<open>Find: the shape of the result\<close>

lemma docsToResourceOrCollection_shape:
  "docsToResourceOrCollection pluralize ds mk pluralizer fieldSets = Inr p \<Longrightarrow> isCollection p = mk"
  by (auto simp: docsToResourceOrCollection_def split: if_splits sum.splits list.splits)

lemma findExec_shape:
  "findExec pluralize a query st mode idQuery populated = Inr (primary, included, collectionSize) \<Longrightarrow>
     isCollection primary = makeCollectionFor (fqIdOrIds query)"
  by (auto simp: findExec_def Let_def split: sum.splits dest: docsToResourceOrCollection_shape)

lemma getIdQueryType_make_collection:
  "makeCollectionFor i \<Longrightarrow> getIdQueryType i = Inr (mode, idQuery) \<Longrightarrow> mode = Find"
  by (cases i) (auto simp: makeCollectionFor_def getIdQueryType_def split: if_splits)

text \<open>
  Claim C3, as the code has it. A result of \<open>find\<close> is a Collection exactly when
  \<open>makeCollection\<close> is true, which is when the id filter is absent, the empty string
  (\<open>!idOrIds\<close>) or an array. With a single id that is not empty, include paths that pass
  and no document found, \<open>find\<close> fails with the APIError 404 "No matching resource
  found." (from the id validation when the id is malformed, from
  \<open>docsToResourceOrCollection\<close> otherwise). With \<open>makeCollection\<close> true, an id filter and
  include paths that pass and no document found, it returns the empty Collection and no
  error. \<open>docsToResourceOrCollection\<close> itself throws the 404 on \<open>null\<close> and, when not
  making a collection, on the empty array, and makes the empty Collection of the empty
  array otherwise.
\<close>

theorem adapterFind_result_shape:
  "(adapterFind pluralize a query = Inr (primary, included, collectionSize) \<longrightarrow>
      (isCollection primary \<longleftrightarrow> makeCollectionFor (fqIdOrIds query)))
   \<and> (makeCollectionFor i \<longleftrightarrow> i = IdUndefined \<or> i = IdString [] \<or> idsIsArray i)
   \<and> (getModel a (getModelName (fqUsing query) (singular pluralize)) = Inr (m, st)
        \<and> fqIdOrIds query = IdString s \<and> s \<noteq> []
        \<and> populatedPathsOf query m = Inr populated
        \<and> execFindOne st (findQueryBuilder query FindOne (QueryId s)
                            (case populated of None \<Rightarrow> [] | Some populatedPaths \<Rightarrow> populatedPaths)) = None
      \<longrightarrow> (\<exists>d. adapterFind pluralize a query
                  = Inl (Api (APIError 404 None ''No matching resource found.'' d))))
   \<and> (getModel a (getModelName (fqUsing query) (singular pluralize)) = Inr (m, st)
        \<and> makeCollectionFor (fqIdOrIds query)
        \<and> getIdQueryType (fqIdOrIds query) = Inr (mode, idQuery)
        \<and> populatedPathsOf query m = Inr populated
        \<and> execFind st (findQueryBuilder query mode idQuery
                         (case populated of None \<Rightarrow> [] | Some populatedPaths \<Rightarrow> populatedPaths)) = []
      \<longrightarrow> (\<exists>n. adapterFind pluralize a query
                  = Inr (Collection [], map_option (\<lambda>populatedPaths. []) populated, n)))
   \<and> docsToResourceOrCollection pluralize DocsNull mk pluralizer fieldSets
       = Inl (Api (APIError 404 None ''No matching resource found.'' None))
   \<and> docsToResourceOrCollection pluralize (DocsArray []) False pluralizer fieldSets
       = Inl (Api (APIError 404 None ''No matching resource found.'' None))
   \<and> docsToResourceOrCollection pluralize (DocsArray []) True pluralizer fieldSets
       = Inr (Collection [])"
proof (intro conjI impI)
  show "docsToResourceOrCollection pluralize DocsNull mk pluralizer fieldSets
       = Inl (Api (APIError 404 None ''No matching resource found.'' None))"
    by (simp add: docsToResourceOrCollection_def)
  show "docsToResourceOrCollection pluralize (DocsArray []) False pluralizer fieldSets
       = Inl (Api (APIError 404 None ''No matching resource found.'' None))"
    by (simp add: docsToResourceOrCollection_def)
  show "docsToResourceOrCollection pluralize (DocsArray []) True pluralizer fieldSets
       = Inr (Collection [])"
    by (simp add: docsToResourceOrCollection_def)
  show "isCollection primary \<longleftrightarrow> makeCollectionFor (fqIdOrIds query)"
    if "adapterFind pluralize a query = Inr (primary, included, collectionSize)"
    using that findExec_shape
    by (auto simp: adapterFind_def split: sum.splits prod.splits)
  show "makeCollectionFor i \<longleftrightarrow> i = IdUndefined \<or> i = IdString [] \<or> idsIsArray i"
    by (cases i) (auto simp: makeCollectionFor_def)
  show "\<exists>d. adapterFind pluralize a query
                  = Inl (Api (APIError 404 None ''No matching resource found.'' d))"
    if h: "getModel a (getModelName (fqUsing query) (singular pluralize)) = Inr (m, st)
        \<and> fqIdOrIds query = IdString s \<and> s \<noteq> []
        \<and> populatedPathsOf query m = Inr populated
        \<and> execFindOne st (findQueryBuilder query FindOne (QueryId s)
                            (case populated of None \<Rightarrow> [] | Some populatedPaths \<Rightarrow> populatedPaths)) = None"
  proof (cases "idIsValid s")
    case False
    then have "getIdQueryType (fqIdOrIds query)
        = Inl (Api (APIError 404 None ''No matching resource found.'' (Some ''Invalid ID.'')))"
      using h by (simp add: getIdQueryType_def)
    then show ?thesis using h by (simp add: adapterFind_def)
  next
    case True
    then have g: "getIdQueryType (fqIdOrIds query) = Inr (FindOne, QueryId s)"
      using h by (simp add: getIdQueryType_def)
    have e: "exec st (findQueryBuilder query FindOne (QueryId s)
                 (case populated of None \<Rightarrow> [] | Some populatedPaths \<Rightarrow> populatedPaths)) = DocsNull"
      using h by (simp add: exec_def findQueryBuilder_def)
    have "findExec pluralize a query st FindOne (QueryId s) populated
            = Inl (Api (APIError 404 None ''No matching resource found.'' None))"
      using e by (cases populated)
        (simp_all add: findExec_def Let_def includedResources_def docsFound_def
           docsToResourceOrCollection_def errorHandler_def)
    then show ?thesis using h g by (simp add: adapterFind_def)
  qed
  show "\<exists>n. adapterFind pluralize a query
                  = Inr (Collection [], map_option (\<lambda>populatedPaths. []) populated, n)"
    if h: "getModel a (getModelName (fqUsing query) (singular pluralize)) = Inr (m, st)
        \<and> makeCollectionFor (fqIdOrIds query)
        \<and> getIdQueryType (fqIdOrIds query) = Inr (mode, idQuery)
        \<and> populatedPathsOf query m = Inr populated
        \<and> execFind st (findQueryBuilder query mode idQuery
                         (case populated of None \<Rightarrow> [] | Some populatedPaths \<Rightarrow> populatedPaths)) = []"
  proof -
    have mode: "mode = Find" using h getIdQueryType_make_collection by blast
    have e: "exec st (findQueryBuilder query mode idQuery
                 (case populated of None \<Rightarrow> [] | Some populatedPaths \<Rightarrow> populatedPaths)) = DocsArray []"
      using h mode by (simp add: exec_def findQueryBuilder_def)
    have "\<exists>n. findExec pluralize a query st mode idQuery populated
            = Inr (Collection [], map_option (\<lambda>populatedPaths. []) populated, n)"
      using e h by (cases populated)
        (simp_all add: findExec_def Let_def includedResources_def docsFound_def presentElems_def
           docsToResourceOrCollection_def)
    then show ?thesis using h by (simp add: adapterFind_def)
  qed
qed

text \<open>
  The theorem at a store that holds one School, queried by its id, and at a store that
  holds nothing, queried by a single id and by an array of ids.
\<close>

theorem adapterFind_result_shape_witness:
  "adapterFind exampleInflector (schoolAdapter (storeOf (schoolDoc JNull [])))
       (findById (IdString ''5a5934cfc810949cebeecc33'') None)
     = Inr (Single (Resource ''schools'' (JStr ''5a5934cfc810949cebeecc33'')
                      (JObj [(''name'', JStr ''City College''), (''isCollege'', JBool False)])
                      [(''liaisons'', Relationship (LinkageOne None)),
                       (''principal'', Relationship (LinkageOne None))]), None, None)
   \<and> \<not> makeCollectionFor (IdString ''5a5934cfc810949cebeecc33'')
   \<and> (\<exists>d. adapterFind exampleInflector (schoolAdapter emptyStore)
              (findById (IdString ''5a5934cfc810949cebeecc33'') None)
            = Inl (Api (APIError 404 None ''No matching resource found.'' d)))
   \<and> makeCollectionFor (IdArray [''5a5934cfc810949cebeecc33''])
   \<and> (\<exists>n. adapterFind exampleInflector (schoolAdapter emptyStore)
              (findById (IdArray [''5a5934cfc810949cebeecc33'']) None)
            = Inr (Collection [], None, n))"
proof -
  let ?id = "''5a5934cfc810949cebeecc33''"
  let ?r = "Resource ''schools'' (JStr ?id)
              (JObj [(''name'', JStr ''City College''), (''isCollege'', JBool False)])
              [(''liaisons'', Relationship (LinkageOne None)),
               (''principal'', Relationship (LinkageOne None))]"
  have found: "adapterFind exampleInflector (schoolAdapter (storeOf (schoolDoc JNull [])))
       (findById (IdString ?id) None) = Inr (Single ?r, None, None)"
    by (simp add: adapter_defs store_defs name_defs mapper_defs js_defs fixture_defs)
  from adapterFind_result_shape [THEN conjunct1, rule_format, OF found]
  have nc: "\<not> makeCollectionFor (IdString ?id)" by (simp add: findById_def)
  have m: "getModel (schoolAdapter emptyStore)
             (getModelName (fqUsing (findById (IdString ?id) None)) (singular exampleInflector))
           = Inr (schoolModel, emptyStore)"
    by (simp add: getModel_def store_defs name_defs exampleInflector_def dropS_def)
  have m': "getModel (schoolAdapter emptyStore)
             (getModelName (fqUsing (findById (IdArray [?id]) None)) (singular exampleInflector))
           = Inr (schoolModel, emptyStore)"
    by (simp add: getModel_def store_defs name_defs exampleInflector_def dropS_def)
  have h3: "getModel (schoolAdapter emptyStore)
             (getModelName (fqUsing (findById (IdString ?id) None)) (singular exampleInflector))
           = Inr (schoolModel, emptyStore)
        \<and> fqIdOrIds (findById (IdString ?id) None) = IdString ?id \<and> ?id \<noteq> []
        \<and> populatedPathsOf (findById (IdString ?id) None) schoolModel = Inr None
        \<and> execFindOne emptyStore (findQueryBuilder (findById (IdString ?id) None) FindOne (QueryId ?id)
                            (case None of None \<Rightarrow> [] | Some populatedPaths \<Rightarrow> populatedPaths)) = None"
    using m by (simp add: findById_def populatedPathsOf_def emptyStore_def)
  note nf = adapterFind_result_shape [THEN conjunct2, THEN conjunct2, THEN conjunct1, rule_format, OF h3]
  have mk: "makeCollectionFor (IdArray [?id])" by (simp add: makeCollectionFor_def)
  have h4: "getModel (schoolAdapter emptyStore)
             (getModelName (fqUsing (findById (IdArray [?id]) None)) (singular exampleInflector))
           = Inr (schoolModel, emptyStore)
        \<and> makeCollectionFor (fqIdOrIds (findById (IdArray [?id]) None))
        \<and> getIdQueryType (fqIdOrIds (findById (IdArray [?id]) None)) = Inr (Find, QueryIdIn [?id])
        \<and> populatedPathsOf (findById (IdArray [?id]) None) schoolModel = Inr None
        \<and> execFind emptyStore (findQueryBuilder (findById (IdArray [?id]) None) Find (QueryIdIn [?id])
                         (case None of None \<Rightarrow> [] | Some populatedPaths \<Rightarrow> populatedPaths)) = []"
    using m' mk
    by (simp add: findById_def populatedPathsOf_def emptyStore_def getIdQueryType_def
          idIsValid_def isHexDigit_def)
  note empty = adapterFind_result_shape [THEN conjunct2, THEN conjunct2, THEN conjunct2,
      THEN conjunct1, rule_format, OF h4]
  show ?thesis using found nc nf mk empty by simp
qed

text \<open>
  The claim as stated is false at the empty string: it is a single id and not an array,
  the store returns no document, and \<open>find\<close> returns the empty Collection, not a 404.
\<close>

theorem adapterFind_empty_string_counterexample:
  "idsIsString (IdString '''') \<and> \<not> idsIsArray (IdString '''') \<and> IdString '''' \<noteq> IdUndefined
   \<and> exec emptyStore (findQueryBuilder (findById (IdString '''') None) Find QueryAll []) = DocsArray []
   \<and> adapterFind exampleInflector (schoolAdapter emptyStore) (findById (IdString '''') None)
       = Inr (Collection [], None, None)"
  by (simp add: adapter_defs store_defs name_defs exampleInflector_def addS_def dropS_def
        presentElems_def)


section \<open>Delete\<close>

lemma removeEach_docs: "removeEach (map Some xs) = (map DocRemove xs, None)"
  by (induction xs) auto

text \<open>
  Claim C5, as the code has it, for a registered model. Without a target id (\<open>undefined\<close>
  or the empty string) \<open>delete\<close> rejects with the APIError 400 and makes no store call. A
  single id that is malformed fails with a 404 before any store call; a single
  well-formed id that matches no document fails with the APIError 404 after the query;
  one that matches a document removes it and returns it. An array of well-formed ids
  removes every document the query matches and returns them, also when it matches none:
  the guard \<open>if(!docs)\<close> is false for an array.
\<close>

theorem adapterDelete_outcomes:
  "getModel a (getModelName (dqUsing query) (singular pluralize)) = Inr (m, st) \<longrightarrow>
     (\<not> idsTruthy (dqIdOrIds query) \<longrightarrow>
        adapterDelete pluralize a query
          = ([], Inl (Api (APIError 400 None ''You must specify some resources to delete'' None))))
   \<and> (dqIdOrIds query = IdString s \<and> s \<noteq> [] \<and> \<not> idIsValid s \<longrightarrow>
        adapterDelete pluralize a query
          = ([], Inl (Api (APIError 404 None ''No matching resource found.'' (Some ''Invalid ID.'')))))
   \<and> (dqIdOrIds query = IdString s \<and> idIsValid s
        \<and> execFindOne st (deleteQueryBuilder FindOne (QueryId s)) = None \<longrightarrow>
        adapterDelete pluralize a query
          = ([QueryExec (deleteQueryBuilder FindOne (QueryId s))],
             Inl (Api (APIError 404 None ''No matching resource found.'' None))))
   \<and> (dqIdOrIds query = IdString s \<and> idIsValid s
        \<and> execFindOne st (deleteQueryBuilder FindOne (QueryId s)) = Some d \<longrightarrow>
        adapterDelete pluralize a query
          = ([QueryExec (deleteQueryBuilder FindOne (QueryId s)), DocRemove d], Inr (DocsOne d)))
   \<and> (dqIdOrIds query = IdArray ids \<and> list_all idIsValid ids \<longrightarrow>
        adapterDelete pluralize a query
          = (QueryExec (deleteQueryBuilder Find (QueryIdIn ids))
               # map DocRemove (execFind st (deleteQueryBuilder Find (QueryIdIn ids))),
             Inr (DocsArray (map Some (execFind st (deleteQueryBuilder Find (QueryIdIn ids)))))))"
proof (intro impI conjI)
  assume m: "getModel a (getModelName (dqUsing query) (singular pluralize)) = Inr (m, st)"
  show "adapterDelete pluralize a query
          = ([], Inl (Api (APIError 400 None ''You must specify some resources to delete'' None)))"
    if "\<not> idsTruthy (dqIdOrIds query)"
    using that m by (cases "dqIdOrIds query") (simp_all add: adapterDelete_def getIdQueryType_def)
  show "adapterDelete pluralize a query
          = ([], Inl (Api (APIError 404 None ''No matching resource found.'' (Some ''Invalid ID.''))))"
    if "dqIdOrIds query = IdString s \<and> s \<noteq> [] \<and> \<not> idIsValid s"
    using that m by (simp add: adapterDelete_def getIdQueryType_def)
  have nonempty: "idIsValid s \<Longrightarrow> s \<noteq> []" by (auto simp: idIsValid_def)
  show "adapterDelete pluralize a query
          = ([QueryExec (deleteQueryBuilder FindOne (QueryId s))],
             Inl (Api (APIError 404 None ''No matching resource found.'' None)))"
    if "dqIdOrIds query = IdString s \<and> idIsValid s
        \<and> execFindOne st (deleteQueryBuilder FindOne (QueryId s)) = None"
    using that m nonempty
    by (simp add: adapterDelete_def getIdQueryType_def exec_def deleteQueryBuilder_def
          errorHandler_def Let_def)
  show "adapterDelete pluralize a query
          = ([QueryExec (deleteQueryBuilder FindOne (QueryId s)), DocRemove d], Inr (DocsOne d))"
    if "dqIdOrIds query = IdString s \<and> idIsValid s
        \<and> execFindOne st (deleteQueryBuilder FindOne (QueryId s)) = Some d"
    using that m nonempty
    by (simp add: adapterDelete_def getIdQueryType_def exec_def deleteQueryBuilder_def Let_def)
  show "adapterDelete pluralize a query
          = (QueryExec (deleteQueryBuilder Find (QueryIdIn ids))
               # map DocRemove (execFind st (deleteQueryBuilder Find (QueryIdIn ids))),
             Inr (DocsArray (map Some (execFind st (deleteQueryBuilder Find (QueryIdIn ids))))))"
    if "dqIdOrIds query = IdArray ids \<and> list_all idIsValid ids"
    using that m
    by (simp add: adapterDelete_def getIdQueryType_def exec_def deleteQueryBuilder_def Let_def
          removeEach_docs)
qed

theorem adapterDelete_outcomes_witness:
  "adapterDelete exampleInflector (schoolAdapter (storeOf (schoolDoc JNull [])))
       \<lparr> dqUsing = ''schools'', dqIdOrIds = IdUndefined \<rparr>
     = ([], Inl (Api (APIError 400 None ''You must specify some resources to delete'' None)))
   \<and> adapterDelete exampleInflector (schoolAdapter (storeOf (schoolDoc JNull [])))
       \<lparr> dqUsing = ''schools'', dqIdOrIds = IdString ''nope'' \<rparr>
     = ([], Inl (Api (APIError 404 None ''No matching resource found.'' (Some ''Invalid ID.''))))
   \<and> adapterDelete exampleInflector (schoolAdapter emptyStore)
       \<lparr> dqUsing = ''schools'', dqIdOrIds = IdString ''5a5934cfc810949cebeecc33'' \<rparr>
     = ([QueryExec (deleteQueryBuilder FindOne (QueryId ''5a5934cfc810949cebeecc33''))],
        Inl (Api (APIError 404 None ''No matching resource found.'' None)))
   \<and> adapterDelete exampleInflector (schoolAdapter (storeOf (schoolDoc JNull [])))
       \<lparr> dqUsing = ''schools'', dqIdOrIds = IdString ''5a5934cfc810949cebeecc33'' \<rparr>
     = ([QueryExec (deleteQueryBuilder FindOne (QueryId ''5a5934cfc810949cebeecc33'')),
         DocRemove (schoolDoc JNull [])],
        Inr (DocsOne (schoolDoc JNull [])))
   \<and> adapterDelete exampleInflector (schoolAdapter (storeOf (schoolDoc JNull [])))
       \<lparr> dqUsing = ''schools'', dqIdOrIds = IdArray [''5a5934cfc810949cebeecc33''] \<rparr>
     = ([QueryExec (deleteQueryBuilder Find (QueryIdIn [''5a5934cfc810949cebeecc33''])),
         DocRemove (schoolDoc JNull [])],
        Inr (DocsArray [Some (schoolDoc JNull [])]))"
proof -
  let ?id = "''5a5934cfc810949cebeecc33''" and ?d = "schoolDoc JNull []"
  have v: "idIsValid ?id" by (simp add: idIsValid_def isHexDigit_def)
  have m: "\<And>st i. getModel (schoolAdapter st)
             (getModelName (dqUsing \<lparr> dqUsing = ''schools'', dqIdOrIds = i \<rparr>) (singular exampleInflector))
           = Inr (schoolModel, st)"
    by (simp add: getModel_def schoolAdapter_def name_defs exampleInflector_def dropS_def)
  have a: "\<not> idsTruthy (dqIdOrIds \<lparr> dqUsing = ''schools'', dqIdOrIds = IdUndefined \<rparr>)" by simp
  note w1 = adapterDelete_outcomes [THEN mp, OF m, THEN conjunct1, rule_format, OF a]
  have a': "dqIdOrIds \<lparr> dqUsing = ''schools'', dqIdOrIds = IdString ''nope'' \<rparr> = IdString ''nope''
        \<and> ''nope'' \<noteq> [] \<and> \<not> idIsValid ''nope''"
    by (simp add: idIsValid_def)
  note w1' = adapterDelete_outcomes [THEN mp, OF m, THEN conjunct2, THEN conjunct1, rule_format, OF a']
  have b: "dqIdOrIds \<lparr> dqUsing = ''schools'', dqIdOrIds = IdString ?id \<rparr> = IdString ?id \<and> idIsValid ?id
        \<and> execFindOne emptyStore (deleteQueryBuilder FindOne (QueryId ?id)) = None"
    using v by (simp add: emptyStore_def)
  note w2 = adapterDelete_outcomes [THEN mp, OF m, THEN conjunct2, THEN conjunct2, THEN conjunct1,
      rule_format, OF b]
  have c: "dqIdOrIds \<lparr> dqUsing = ''schools'', dqIdOrIds = IdString ?id \<rparr> = IdString ?id \<and> idIsValid ?id
        \<and> execFindOne (storeOf ?d) (deleteQueryBuilder FindOne (QueryId ?id)) = Some ?d"
    using v by (simp add: storeOf_def)
  note w3 = adapterDelete_outcomes [THEN mp, OF m, THEN conjunct2, THEN conjunct2, THEN conjunct2,
      THEN conjunct1, rule_format, OF c]
  have d: "dqIdOrIds \<lparr> dqUsing = ''schools'', dqIdOrIds = IdArray [?id] \<rparr> = IdArray [?id]
        \<and> list_all idIsValid [?id]"
    using v by simp
  have w4: "adapterDelete exampleInflector (schoolAdapter (storeOf ?d))
       \<lparr> dqUsing = ''schools'', dqIdOrIds = IdArray [?id] \<rparr>
     = ([QueryExec (deleteQueryBuilder Find (QueryIdIn [?id])), DocRemove ?d],
        Inr (DocsArray [Some ?d]))"
    using adapterDelete_outcomes [of "schoolAdapter (storeOf ?d)" _ exampleInflector schoolModel "storeOf ?d",
      THEN mp, OF m, THEN conjunct2, THEN conjunct2, THEN conjunct2, THEN conjunct2, rule_format, OF d]
    by (simp add: storeOf_def)
  show ?thesis using w1 w1' w2 w3 w4 by simp
qed

text \<open>
  The claim as stated is false for an array of ids that matches no document: the store
  returns the empty array and \<open>delete\<close> resolves to it, with no 404.
\<close>

theorem adapterDelete_no_match_counterexample:
  "execFind emptyStore (deleteQueryBuilder Find (QueryIdIn [''5a5934cfc810949cebeecc33''])) = []
   \<and> adapterDelete exampleInflector (schoolAdapter emptyStore)
        \<lparr> dqUsing = ''schools'', dqIdOrIds = IdArray [''5a5934cfc810949cebeecc33''] \<rparr>
      = ([QueryExec (deleteQueryBuilder Find (QueryIdIn [''5a5934cfc810949cebeecc33'']))],
         Inr (DocsArray []))"
  by (simp add: adapter_defs store_defs name_defs exampleInflector_def addS_def dropS_def)


section \<open>Update\<close>

lemma fold_update_keys:
  "fst ` set (fold (\<lambda>k acc. AList.update k (f k) acc) ks acc0) = set ks \<union> fst ` set acc0"
  by (induction ks arbitrary: acc0) (auto simp: dom_update)

lemma fold_update_other:
  "k \<notin> set ks \<Longrightarrow> map_of (fold (\<lambda>k acc. AList.update k (f k) acc) ks acc0) k = map_of acc0 k"
  by (induction ks arbitrary: acc0) (auto simp: update_conv')

lemma fold_update_value:
  "k \<in> set ks \<Longrightarrow> map_of (fold (\<lambda>k acc. AList.update k (f k) acc) ks acc0) k = Some (f k)"
proof (induction ks arbitrary: acc0)
  case Nil
  then show ?case by simp
next
  case (Cons x xs)
  show ?case
  proof (cases "k \<in> set xs")
    case True
    then show ?thesis using Cons.IH by simp
  next
    case False
    then have "k = x" using Cons.prems by simp
    then show ?thesis using False by (simp add: fold_update_other update_conv')
  qed
qed

lemma finalUpdateOf_keys: "fst ` set (finalUpdateOf u) = set (modifiedPaths u)"
  by (simp add: finalUpdateOf_def fold_update_keys)

lemma finalUpdateOf_value:
  "k \<in> set (modifiedPaths u) \<Longrightarrow>
     map_of (finalUpdateOf u) k = Some (ownValue (JObj (toObject u)) k)"
  by (simp add: finalUpdateOf_def fold_update_value)

lemma fold_pairs_update_keys:
  "fst ` set (fold (\<lambda>(name, rel) acc. AList.update name (g rel) acc) rels acc0)
     = fst ` set rels \<union> fst ` set acc0"
proof (induction rels arbitrary: acc0)
  case Nil
  then show ?case by simp
next
  case (Cons x rels)
  obtain name rel where x: "x = (name, rel)" by (cases x)
  have "fst ` set (fold (\<lambda>(name, rel) acc. AList.update name (g rel) acc) (x # rels) acc0)
      = fst ` set rels \<union> fst ` set (AList.update name (g rel) acc0)"
    using Cons.IH [of "AList.update name (g rel) acc0"] x by simp
  also have "\<dots> = fst ` set (x # rels) \<union> fst ` set acc0"
    using x by (simp add: dom_update)
  finally show ?case .
qed

lemma resourceToDocObject_keys: "fst ` set (resourceToDocObject r) = patchPaths r"
  by (cases "resourceAttrs r")
     (auto simp: resourceToDocObject_def patchPaths_def fold_pairs_update_keys)

lemma updateEach_calls:
  "call \<in> set (fst (updateEach a parentStore rs)) \<Longrightarrow>
     \<exists>r \<in> set rs. \<exists>d. updateOne a parentStore r = Inr (call, d)"
proof (induction rs)
  case Nil
  then show ?case by simp
next
  case (Cons r rs)
  show ?case
  proof (cases "updateOne a parentStore r")
    case (Inl e)
    then show ?thesis using Cons.prems by simp
  next
    case (Inr cd)
    obtain c d where cd: "cd = (c, d)" by (cases cd)
    obtain calls res where rest: "updateEach a parentStore rs = (calls, res)"
      by (cases "updateEach a parentStore rs")
    have "call = c \<or> call \<in> set calls"
      using Cons.prems Inr cd rest by (cases res) auto
    then show ?thesis
    proof
      assume "call = c"
      then show ?thesis using Inr cd by auto
    next
      assume "call \<in> set calls"
      then show ?thesis using Cons.IH rest by auto
    qed
  qed
qed

lemma adapterUpdate_calls:
  "call \<in> set (fst (adapterUpdate pluralize a query)) \<Longrightarrow>
     \<exists>parentModel parentStore.
        getModel a (getModelName (uqUsing query) (singular (adapterInflector a)))
          = Inr (parentModel, parentStore)
      \<and> call \<in> set (fst (updateEach a parentStore (patchResources (uqPatch query))))"
proof (cases "getModel a (getModelName (uqUsing query) (singular (adapterInflector a)))")
  case (Inl e)
  assume "call \<in> set (fst (adapterUpdate pluralize a query))"
  then show ?thesis using Inl by (simp add: adapterUpdate_def)
next
  case (Inr ms)
  assume c: "call \<in> set (fst (adapterUpdate pluralize a query))"
  obtain pm ps where ms: "ms = (pm, ps)" by (cases ms)
  have "call \<in> set (fst (updateEach a ps (patchResources (uqPatch query))))"
  proof (cases "uqPatch query")
    case (Single r)
    obtain calls res where e: "updateEach a ps [r] = (calls, res)" by (cases "updateEach a ps [r]")
    then show ?thesis using c Inr ms Single
      by (cases res) (simp_all add: adapterUpdate_def)
  next
    case (Collection rs)
    obtain calls res where e: "updateEach a ps rs = (calls, res)" by (cases "updateEach a ps rs")
    then show ?thesis using c Inr ms Collection
      by (cases res) (simp_all add: adapterUpdate_def)
  next
    case NoResource
    then show ?thesis using c Inr ms by (simp add: adapterUpdate_def)
  qed
  then show ?thesis using Inr ms by simp
qed

text \<open>
  Claim C4. Every update \<open>update\<close> sends to the store is the final update of a resource
  of the patch: its paths are exactly the paths the store's document construction
  (\<open>hydrate({}).set(changeSet)\<close>) reports as modified, each with the value the
  constructed document has there. So when the store reports as modified only paths the
  change set sets, the update holds only paths the patch names (its attributes and
  relationships): a default the construction fills in never reaches the update. For a
  single resource whose models are registered exactly this one update is sent.
\<close>

theorem adapterUpdate_final_update:
  "(FindByIdAndUpdate ident upd \<in> set (fst (adapterUpdate pluralize a query)) \<longrightarrow>
      (\<exists>res newModel newStore.
          res \<in> set (patchResources (uqPatch query)) \<and> ident = resourceId res
        \<and> getModel a (getModelName (resourceType res) (singular (adapterInflector a)))
            = Inr (newModel, newStore)
        \<and> upd = finalUpdateOf (hydrateSet newStore (resourceToDocObject res))
        \<and> fst ` set upd = set (modifiedPaths (hydrateSet newStore (resourceToDocObject res)))
        \<and> (\<forall>k \<in> fst ` set upd.
              map_of upd k
                = Some (ownValue (JObj (toObject (hydrateSet newStore (resourceToDocObject res)))) k))
        \<and> (set (modifiedPaths (hydrateSet newStore (resourceToDocObject res))) \<subseteq> patchPaths res
              \<longrightarrow> fst ` set upd \<subseteq> patchPaths res)))
   \<and> (getModel a (getModelName (uqUsing query) (singular (adapterInflector a)))
         = Inr (parentModel, parentStore)
       \<and> uqPatch query = Single r
       \<and> getModel a (getModelName (resourceType r) (singular (adapterInflector a)))
            = Inr (newModel, newStore) \<longrightarrow>
       fst (adapterUpdate pluralize a query)
         = [FindByIdAndUpdate (resourceId r)
              (finalUpdateOf (hydrateSet newStore (resourceToDocObject r)))])
   \<and> fst ` set (resourceToDocObject r) = patchPaths r"
proof (intro conjI impI)
  show "fst ` set (resourceToDocObject r) = patchPaths r" by (rule resourceToDocObject_keys)
  show "fst (adapterUpdate pluralize a query)
         = [FindByIdAndUpdate (resourceId r)
              (finalUpdateOf (hydrateSet newStore (resourceToDocObject r)))]"
    if "getModel a (getModelName (uqUsing query) (singular (adapterInflector a)))
         = Inr (parentModel, parentStore)
       \<and> uqPatch query = Single r
       \<and> getModel a (getModelName (resourceType r) (singular (adapterInflector a)))
            = Inr (newModel, newStore)"
    using that by (simp add: adapterUpdate_def updateOne_def Let_def)
  show "\<exists>r newModel newStore.
          r \<in> set (patchResources (uqPatch query)) \<and> ident = resourceId r
        \<and> getModel a (getModelName (resourceType r) (singular (adapterInflector a)))
            = Inr (newModel, newStore)
        \<and> upd = finalUpdateOf (hydrateSet newStore (resourceToDocObject r))
        \<and> fst ` set upd = set (modifiedPaths (hydrateSet newStore (resourceToDocObject r)))
        \<and> (\<forall>k \<in> fst ` set upd.
              map_of upd k
                = Some (ownValue (JObj (toObject (hydrateSet newStore (resourceToDocObject r)))) k))
        \<and> (set (modifiedPaths (hydrateSet newStore (resourceToDocObject r))) \<subseteq> patchPaths r
              \<longrightarrow> fst ` set upd \<subseteq> patchPaths r)"
    if call: "FindByIdAndUpdate ident upd \<in> set (fst (adapterUpdate pluralize a query))"
  proof -
    from adapterUpdate_calls [OF call] obtain parentModel parentStore where
      "FindByIdAndUpdate ident upd \<in> set (fst (updateEach a parentStore (patchResources (uqPatch query))))"
      by blast
    from updateEach_calls [OF this] obtain r0 d where
      r0: "r0 \<in> set (patchResources (uqPatch query))"
      and one: "updateOne a parentStore r0 = Inr (FindByIdAndUpdate ident upd, d)"
      by blast
    from one obtain newModel newStore where
      nm: "getModel a (getModelName (resourceType r0) (singular (adapterInflector a)))
            = Inr (newModel, newStore)"
      and i: "ident = resourceId r0"
      and u: "upd = finalUpdateOf (hydrateSet newStore (resourceToDocObject r0))"
      by (auto simp: updateOne_def Let_def split: sum.splits)
    let ?h = "hydrateSet newStore (resourceToDocObject r0)"
    have k: "fst ` set upd = set (modifiedPaths ?h)" using u finalUpdateOf_keys by simp
    have v: "\<forall>k \<in> fst ` set upd. map_of upd k = Some (ownValue (JObj (toObject ?h)) k)"
      using u k finalUpdateOf_value by simp
    show ?thesis
      apply (rule exI [of _ r0])
      apply (rule exI [of _ newModel])
      apply (rule exI [of _ newStore])
      using r0 i nm u k v apply simp
      done
  qed
qed


text \<open>
  The theorem at the patch \<open>{name: "State College"}\<close> of a School, on a store whose
  document construction adds the default \<open>isCollege: false\<close>.
\<close>

theorem adapterUpdate_final_update_witness:
  "fst (adapterUpdate exampleInflector (schoolAdapter (storeOf (schoolDoc JNull [])))
          \<lparr> uqUsing = ''schools'',
            uqPatch = Single (Resource ''schools'' (JStr ''5a5934cfc810949cebeecc33'')
                               (JObj [(''name'', JStr ''State College'')]) []) \<rparr>)
     = [FindByIdAndUpdate (JStr ''5a5934cfc810949cebeecc33'') [(''name'', JStr ''State College'')]]
   \<and> toObject (hydrateSet (storeOf (schoolDoc JNull []))
                  (resourceToDocObject (Resource ''schools'' (JStr ''5a5934cfc810949cebeecc33'')
                               (JObj [(''name'', JStr ''State College'')]) [])))
       = [(''name'', JStr ''State College''), (''isCollege'', JBool False)]
   \<and> (\<exists>r newModel newStore.
          r \<in> set [Resource ''schools'' (JStr ''5a5934cfc810949cebeecc33'')
                      (JObj [(''name'', JStr ''State College'')]) []]
        \<and> JStr ''5a5934cfc810949cebeecc33'' = resourceId r
        \<and> getModel (schoolAdapter (storeOf (schoolDoc JNull [])))
              (getModelName (resourceType r) (singular exampleInflector)) = Inr (newModel, newStore)
        \<and> [(''name'', JStr ''State College'')]
             = finalUpdateOf (hydrateSet newStore (resourceToDocObject r))
        \<and> set (modifiedPaths (hydrateSet newStore (resourceToDocObject r))) \<subseteq> patchPaths r
        \<and> fst ` set [(''name'', JStr ''State College'')] \<subseteq> patchPaths r)"
proof -
  let ?a = "schoolAdapter (storeOf (schoolDoc JNull []))"
  let ?p = "Resource ''schools'' (JStr ''5a5934cfc810949cebeecc33'')
              (JObj [(''name'', JStr ''State College'')]) []"
  let ?q = "\<lparr> uqUsing = ''schools'', uqPatch = Single ?p \<rparr>"
  have inf: "adapterInflector ?a = exampleInflector" by (simp add: schoolAdapter_def)
  have m: "getModel ?a (getModelName ''schools'' (singular exampleInflector))
             = Inr (schoolModel, storeOf (schoolDoc JNull []))"
    by (simp add: getModel_def schoolAdapter_def name_defs exampleInflector_def dropS_def)
  have h: "getModel ?a (getModelName (uqUsing ?q) (singular (adapterInflector ?a)))
             = Inr (schoolModel, storeOf (schoolDoc JNull []))
       \<and> uqPatch ?q = Single ?p
       \<and> getModel ?a (getModelName (resourceType ?p) (singular (adapterInflector ?a)))
             = Inr (schoolModel, storeOf (schoolDoc JNull []))"
    using m inf by simp
  have cs: "resourceToDocObject ?p = [(''name'', JStr ''State College'')]"
    by (simp add: resourceToDocObject_def)
  have fu: "finalUpdateOf (hydrateSet (storeOf (schoolDoc JNull [])) (resourceToDocObject ?p))
              = [(''name'', JStr ''State College'')]"
    by (simp add: cs finalUpdateOf_def storeOf_def exampleHydrate_def ownValue_def getProp_def)
  have obj: "toObject (hydrateSet (storeOf (schoolDoc JNull [])) (resourceToDocObject ?p))
       = [(''name'', JStr ''State College''), (''isCollege'', JBool False)]"
    by (simp add: cs storeOf_def exampleHydrate_def)
  have calls: "fst (adapterUpdate exampleInflector ?a ?q)
     = [FindByIdAndUpdate (JStr ''5a5934cfc810949cebeecc33'') [(''name'', JStr ''State College'')]]"
    using adapterUpdate_final_update [of _ _ exampleInflector ?a ?q schoolModel
        "storeOf (schoolDoc JNull [])" ?p schoolModel "storeOf (schoolDoc JNull [])",
        THEN conjunct2, THEN conjunct1, rule_format, OF h] fu
    by simp
  have mem: "FindByIdAndUpdate (JStr ''5a5934cfc810949cebeecc33'') [(''name'', JStr ''State College'')]
               \<in> set (fst (adapterUpdate exampleInflector ?a ?q))"
    using calls by simp
  note ex = adapterUpdate_final_update [of "JStr ''5a5934cfc810949cebeecc33''"
        "[(''name'', JStr ''State College'')]" exampleInflector ?a ?q,
        THEN conjunct1, rule_format, OF mem]
  obtain r newModel newStore where
    all: "r \<in> set (patchResources (uqPatch ?q))
       \<and> JStr ''5a5934cfc810949cebeecc33'' = resourceId r
       \<and> getModel ?a (getModelName (resourceType r) (singular (adapterInflector ?a))) = Inr (newModel, newStore)
       \<and> [(''name'', JStr ''State College'')] = finalUpdateOf (hydrateSet newStore (resourceToDocObject r))
       \<and> fst ` set [(''name'', JStr ''State College'')]
            = set (modifiedPaths (hydrateSet newStore (resourceToDocObject r)))
       \<and> (\<forall>k \<in> fst ` set [(''name'', JStr ''State College'')].
              map_of [(''name'', JStr ''State College'')] k
                = Some (ownValue (JObj (toObject (hydrateSet newStore (resourceToDocObject r)))) k))
       \<and> (set (modifiedPaths (hydrateSet newStore (resourceToDocObject r))) \<subseteq> patchPaths r
              \<longrightarrow> fst ` set [(''name'', JStr ''State College'')] \<subseteq> patchPaths r)"
    using ex by (elim exE) (rule that, assumption)
  note r = all [THEN conjunct1] all [THEN conjunct2, THEN conjunct1]
    all [THEN conjunct2, THEN conjunct2, THEN conjunct1]
    all [THEN conjunct2, THEN conjunct2, THEN conjunct2, THEN conjunct1]
    all [THEN conjunct2, THEN conjunct2, THEN conjunct2, THEN conjunct2, THEN conjunct2, THEN conjunct2]
  have rp: "r = ?p" using r(1) by simp
  have ns: "newStore = storeOf (schoolDoc JNull [])" using r(3) m inf rp by simp
  have contract: "set (modifiedPaths (hydrateSet newStore (resourceToDocObject r))) \<subseteq> patchPaths r"
    using rp ns cs by (simp add: storeOf_def exampleHydrate_def patchPaths_def)
  have sub: "fst ` set [(''name'', JStr ''State College'')] \<subseteq> patchPaths r"
    using r(5) contract by (rule mp)
  show ?thesis
    apply (intro conjI)
      apply (rule calls)
     apply (rule obj)
    apply (rule exI [of _ r])
    apply (rule exI [of _ newModel])
    apply (rule exI [of _ newStore])
    using r(1) r(2) r(3) r(4) contract sub inf apply simp
    done
qed

end
